theory Spec2Isabelle
  imports Main "HOL-Library.Word"
begin

section \<open>Data model\<close>

text \<open>
  The Go package \<^verbatim>\<open>gapi\<close> (annotation.go, orgs.go). A Go \<^verbatim>\<open>int64\<close> is a 64-bit word, a
  Go \<^verbatim>\<open>string\<close> and a \<^verbatim>\<open>[]byte\<close> are byte lists, a Go \<^verbatim>\<open>int\<close> that is only compared
  with a constant is an \<^typ>\<open>int\<close>.
\<close>

type_synonym int64 = "64 word"
type_synonym bytes = string

text \<open>
  A Go slice is either \<^verbatim>\<open>nil\<close> or holds a sequence of elements: \<^verbatim>\<open>[]T{}\<close> and
  \<^verbatim>\<open>make([]T, 0)\<close> are empty but not nil. \<^verbatim>\<open>range\<close> over either visits the elements in
  order, \<^verbatim>\<open>append\<close> always gives a non-nil slice.
\<close>

datatype 'a slice = NilSlice | Slice "'a list"

fun elems :: "'a slice \<Rightarrow> 'a list" where
  "elems NilSlice = []"
| "elems (Slice xs) = xs"

definition len :: "'a slice \<Rightarrow> nat" where
  "len s = length (elems s)"

definition append_slice :: "'a slice \<Rightarrow> 'a \<Rightarrow> 'a slice" where
  "append_slice s x = Slice (elems s @ [x])"

text \<open>
  A Go \<^verbatim>\<open>error\<close>. \<^verbatim>\<open>errors.New\<close> and \<^verbatim>\<open>fmt.Errorf\<close> build an \<open>errorString\<close>; the other
  constructors are the errors that come out of the calls the package makes: building the
  request, the transport, reading the body, and the JSON encoder and decoder. The nil error
  is \<open>None\<close> of \<open>error option\<close>, and a Go result \<^verbatim>\<open>(T, error)\<close> is a pair: Go returns
  both values, also when the error is not nil.
\<close>

datatype error =
    errorString string
  | requestError string
  | transportError string
  | readError string
  | jsonError string

fun Error :: "error \<Rightarrow> string" where
  "Error (errorString s) = s"
| "Error (requestError s) = s"
| "Error (transportError s) = s"
| "Error (readError s) = s"
| "Error (jsonError s) = s"

text \<open>\<^verbatim>\<open>url.Values\<close>: keys with their values, in order; the nil map is the empty list.\<close>

type_synonym Values = "(string \<times> string list) list"

record Annotation =
  ID :: int64
  AlertID :: int64
  DashboardID :: int64
  PanelID :: int64
  UserID :: int64
  UserName :: string
  NewState :: string
  PrevState :: string
  Time :: int64
  TimeEnd :: int64
  Text :: string
  Metric :: string
  RegionID :: int64
  Type :: string
  Tags :: "string slice"
  IsRegion :: bool

text \<open>\<^verbatim>\<open>Annotation{}\<close>, the zero value.\<close>

definition zero_Annotation :: Annotation where
  "zero_Annotation =
     \<lparr>ID = 0, AlertID = 0, DashboardID = 0, PanelID = 0, UserID = 0, UserName = [],
      NewState = [], PrevState = [], Time = 0, TimeEnd = 0, Text = [], Metric = [],
      RegionID = 0, Type = [], Tags = NilSlice, IsRegion = False\<rparr>"

record GraphiteAnnotation =
  What :: string
  When :: int64
  Data :: string
  Graphite_Tags :: "string slice"

text \<open>
  \<^verbatim>\<open>OrgUser\<close> embeds \<^verbatim>\<open>User\<close>, whose declaration is in another file of the package: the
  type of users is a parameter \<open>'u\<close>.
\<close>

record 'u OrgUser =
  User :: 'u
  Role :: string
  OrgID :: int64

type_synonym 'u OrgUsers = "'u OrgUser slice"

text \<open>The field \<^verbatim>\<open>Id\<close> of \<^verbatim>\<open>Org\<close> is \<open>Org_Id\<close> here: \<open>Id\<close> is the identity relation of HOL.\<close>

record Org =
  Org_Id :: int64
  Name :: string

definition zero_Org :: Org where
  "zero_Org = \<lparr>Org_Id = 0, Name = []\<rparr>"

definition OrgUserRoleViewer :: string where "OrgUserRoleViewer = ''Viewer''"
definition OrgUserRoleAdmin :: string where "OrgUserRoleAdmin = ''Admin''"
definition OrgUserRoleEditor :: string where "OrgUserRoleEditor = ''Editor''"

text \<open>
  \<^verbatim>\<open>*http.Response\<close>, as far as the package looks at it: the status code, the status text
  and the body. \<open>Body\<close> is what \<^verbatim>\<open>ioutil.ReadAll(resp.Body)\<close> returns once the body is
  read: the bytes that arrived and the error that ended the read, if any.
\<close>

record Response =
  StatusCode :: int
  Status :: string
  Body :: "bytes \<times> error option"

section \<open>Formatting\<close>

text \<open>\<^verbatim>\<open>%d\<close> and \<^verbatim>\<open>%v\<close> of an \<^verbatim>\<open>int64\<close>: the signed value in decimal.\<close>

definition digit :: "nat \<Rightarrow> char" where
  "digit d = ''0123456789'' ! (d mod 10)"

fun decimal :: "nat \<Rightarrow> string" where
  "decimal n = (if n < 10 then [digit n] else decimal (n div 10) @ [digit n])"

declare decimal.simps [simp del]

definition itoa :: "int \<Rightarrow> string" where
  "itoa i = (if i < 0 then CHR ''-'' # decimal (nat (- i)) else decimal (nat i))"

definition fmt_d :: "int64 \<Rightarrow> string" where
  "fmt_d i = itoa (sint i)"

section \<open>The client, the calls it makes and what they leave behind\<close>

text \<open>
  \<^verbatim>\<open>Client\<close>, its methods \<^verbatim>\<open>newRequest\<close> and \<^verbatim>\<open>Do\<close> and the type \<^verbatim>\<open>*http.Request\<close> are
  declared outside the two files, and \<^verbatim>\<open>json.Marshal\<close> and \<^verbatim>\<open>json.Unmarshal\<close> are the
  standard library: the operations take them from an environment. The client \<open>'c\<close> is
  passed by pointer in Go, so \<open>newRequest\<close> and \<open>Do\<close> return the client as they leave
  it. \<open>json.Unmarshal(data, &v)\<close> writes into \<open>v\<close>: the decoder takes the value \<open>v\<close>
  has before the call and returns the one it has after, with the error.

  annotation.go calls \<^verbatim>\<open>newRequest(method, path, query, body)\<close> and orgs.go calls
  \<^verbatim>\<open>newRequest(method, path, body)\<close>; the calls of orgs.go are those of annotation.go
  with no query parameters. A body is \<open>None\<close> for a nil reader and \<open>Some data\<close> for
  a buffer over \<open>data\<close>.
\<close>

record ('c, 'q, 'u) env =
  newRequest :: "'c \<Rightarrow> string \<Rightarrow> string \<Rightarrow> Values \<Rightarrow> bytes option \<Rightarrow> ('q \<times> error option) \<times> 'c"
  Do :: "'c \<Rightarrow> 'q \<Rightarrow> (Response \<times> error option) \<times> 'c"
  Marshal_Annotation :: "Annotation \<Rightarrow> bytes \<times> error option"
  Marshal_GraphiteAnnotation :: "GraphiteAnnotation \<Rightarrow> bytes \<times> error option"
  Marshal_map :: "(string \<times> string) list \<Rightarrow> bytes \<times> error option"
  Marshal_Org :: "Org \<Rightarrow> bytes \<times> error option"
  Unmarshal_Annotations :: "bytes \<Rightarrow> Annotation slice \<Rightarrow> Annotation slice \<times> error option"
  Unmarshal_id :: "bytes \<Rightarrow> int64 \<Rightarrow> int64 \<times> error option"
  Unmarshal_message :: "bytes \<Rightarrow> string \<Rightarrow> string \<times> error option"
  Unmarshal_OrgUsers :: "bytes \<Rightarrow> 'u OrgUser slice \<Rightarrow> 'u OrgUser slice \<times> error option"
  Unmarshal_Org :: "bytes \<Rightarrow> Org \<Rightarrow> Org \<times> error option"
  Unmarshal_Orgs :: "bytes \<Rightarrow> Org slice \<Rightarrow> Org slice \<times> error option"
  Unmarshal_orgId :: "bytes \<Rightarrow> int64 \<Rightarrow> int64 \<times> error option"

text \<open>
  What a call does besides returning: it may build a request, send one and read a response
  body. The state is the client and the list of these events, oldest first.
\<close>

datatype 'q event =
    NewRequest_ev string string Values "bytes option"
  | Do_ev 'q Response "error option"
  | ReadAll_ev

record ('c, 'q) world =
  client :: 'c
  trace :: "'q event list"

definition c_newRequest ::
  "('c, 'q, 'u) env \<Rightarrow> string \<Rightarrow> string \<Rightarrow> Values \<Rightarrow> bytes option \<Rightarrow> ('c, 'q) world
     \<Rightarrow> ('q \<times> error option) \<times> ('c, 'q) world" where
  "c_newRequest env method path params body w =
     (case newRequest env (client w) method path params body of
        (r, c') \<Rightarrow> (r, \<lparr>client = c', trace = trace w @ [NewRequest_ev method path params body]\<rparr>))"

definition c_Do ::
  "('c, 'q, 'u) env \<Rightarrow> 'q \<Rightarrow> ('c, 'q) world \<Rightarrow> (Response \<times> error option) \<times> ('c, 'q) world" where
  "c_Do env req w =
     (case Do env (client w) req of
        ((resp, err), c') \<Rightarrow> ((resp, err), \<lparr>client = c', trace = trace w @ [Do_ev req resp err]\<rparr>))"

definition ReadAll :: "Response \<Rightarrow> ('c, 'q) world \<Rightarrow> (bytes \<times> error option) \<times> ('c, 'q) world" where
  "ReadAll resp w = (Body resp, \<lparr>client = client w, trace = trace w @ [ReadAll_ev]\<rparr>)"

section \<open>annotation.go\<close>

definition Annotations ::
  "('c, 'q, 'u) env \<Rightarrow> Values \<Rightarrow> ('c, 'q) world \<Rightarrow> (Annotation slice \<times> error option) \<times> ('c, 'q) world" where
  "Annotations env params w =
     (case c_newRequest env ''GET'' ''/api/annotation'' params None w of ((req, err), w1) \<Rightarrow>
      (case err of Some e \<Rightarrow> ((NilSlice, Some e), w1) | None \<Rightarrow>
      (case c_Do env req w1 of ((resp, err), w2) \<Rightarrow>
      (case err of Some e \<Rightarrow> ((NilSlice, Some e), w2) | None \<Rightarrow>
      if StatusCode resp \<noteq> 200 then ((NilSlice, Some (errorString (Status resp))), w2) else
      (case ReadAll resp w2 of ((data, err), w3) \<Rightarrow>
      (case err of Some e \<Rightarrow> ((NilSlice, Some e), w3) | None \<Rightarrow>
      (Unmarshal_Annotations env data (Slice []), w3)))))))"

text \<open>The loop of \<^verbatim>\<open>Annotation\<close>: the first element with the ID, if there is one.\<close>

fun scan :: "int64 \<Rightarrow> Annotation list \<Rightarrow> Annotation option" where
  "scan aid [] = None"
| "scan aid (a # as) = (if ID a = aid then Some a else scan aid as)"

definition Annotation ::
  "('c, 'q, 'u) env \<Rightarrow> int64 \<Rightarrow> Values \<Rightarrow> ('c, 'q) world \<Rightarrow> (Annotation \<times> error option) \<times> ('c, 'q) world" where
  "Annotation env aid params w =
     (case Annotations env params w of ((as, err), w1) \<Rightarrow>
      (case err of Some e \<Rightarrow> ((zero_Annotation, Some e), w1) | None \<Rightarrow>
      (case scan aid (elems as) of
         Some a \<Rightarrow> ((a, None), w1)
       | None \<Rightarrow> ((zero_Annotation, Some (errorString (''annotation '' @ fmt_d aid @ '' not found''))), w1))))"

text \<open>
  The four operations that send a JSON document and decode an answer share their text in
  the source up to the method, the path, the encoder and the decoder; each is written out
  below as the source has it.
\<close>

definition NewAnnotation ::
  "('c, 'q, 'u) env \<Rightarrow> Annotation \<Rightarrow> ('c, 'q) world \<Rightarrow> (int64 \<times> error option) \<times> ('c, 'q) world" where
  "NewAnnotation env a w =
     (case Marshal_Annotation env a of (data, err) \<Rightarrow>
      (case err of Some e \<Rightarrow> ((0, Some e), w) | None \<Rightarrow>
      (case c_newRequest env ''POST'' ''/api/annotations'' [] (Some data) w of ((req, err), w1) \<Rightarrow>
      (case err of Some e \<Rightarrow> ((0, Some e), w1) | None \<Rightarrow>
      (case c_Do env req w1 of ((resp, err), w2) \<Rightarrow>
      (case err of Some e \<Rightarrow> ((0, Some e), w2) | None \<Rightarrow>
      if StatusCode resp \<noteq> 200 then ((0, Some (errorString (Status resp))), w2) else
      (case ReadAll resp w2 of ((data, err), w3) \<Rightarrow>
      (case err of Some e \<Rightarrow> ((0, Some e), w3) | None \<Rightarrow>
      (Unmarshal_id env data 0, w3)))))))))"

definition NewGraphiteAnnotation ::
  "('c, 'q, 'u) env \<Rightarrow> GraphiteAnnotation \<Rightarrow> ('c, 'q) world \<Rightarrow> (int64 \<times> error option) \<times> ('c, 'q) world" where
  "NewGraphiteAnnotation env gfa w =
     (case Marshal_GraphiteAnnotation env gfa of (data, err) \<Rightarrow>
      (case err of Some e \<Rightarrow> ((0, Some e), w) | None \<Rightarrow>
      (case c_newRequest env ''POST'' ''/api/annotations/graphite'' [] (Some data) w of ((req, err), w1) \<Rightarrow>
      (case err of Some e \<Rightarrow> ((0, Some e), w1) | None \<Rightarrow>
      (case c_Do env req w1 of ((resp, err), w2) \<Rightarrow>
      (case err of Some e \<Rightarrow> ((0, Some e), w2) | None \<Rightarrow>
      if StatusCode resp \<noteq> 200 then ((0, Some (errorString (Status resp))), w2) else
      (case ReadAll resp w2 of ((data, err), w3) \<Rightarrow>
      (case err of Some e \<Rightarrow> ((0, Some e), w3) | None \<Rightarrow>
      (Unmarshal_id env data 0, w3)))))))))"

definition UpdateAnnotation ::
  "('c, 'q, 'u) env \<Rightarrow> int64 \<Rightarrow> Annotation \<Rightarrow> ('c, 'q) world \<Rightarrow> (string \<times> error option) \<times> ('c, 'q) world" where
  "UpdateAnnotation env aid a w =
     (let path = ''/api/annotations/'' @ fmt_d aid in
      case Marshal_Annotation env a of (data, err) \<Rightarrow>
      (case err of Some e \<Rightarrow> (([], Some e), w) | None \<Rightarrow>
      (case c_newRequest env ''PUT'' path [] (Some data) w of ((req, err), w1) \<Rightarrow>
      (case err of Some e \<Rightarrow> (([], Some e), w1) | None \<Rightarrow>
      (case c_Do env req w1 of ((resp, err), w2) \<Rightarrow>
      (case err of Some e \<Rightarrow> (([], Some e), w2) | None \<Rightarrow>
      if StatusCode resp \<noteq> 200 then (([], Some (errorString (Status resp))), w2) else
      (case ReadAll resp w2 of ((data, err), w3) \<Rightarrow>
      (case err of Some e \<Rightarrow> (([], Some e), w3) | None \<Rightarrow>
      (Unmarshal_message env data [], w3)))))))))"

definition PatchAnnotation ::
  "('c, 'q, 'u) env \<Rightarrow> int64 \<Rightarrow> Annotation \<Rightarrow> ('c, 'q) world \<Rightarrow> (string \<times> error option) \<times> ('c, 'q) world" where
  "PatchAnnotation env aid a w =
     (let path = ''/api/annotations/'' @ fmt_d aid in
      case Marshal_Annotation env a of (data, err) \<Rightarrow>
      (case err of Some e \<Rightarrow> (([], Some e), w) | None \<Rightarrow>
      (case c_newRequest env ''PATCH'' path [] (Some data) w of ((req, err), w1) \<Rightarrow>
      (case err of Some e \<Rightarrow> (([], Some e), w1) | None \<Rightarrow>
      (case c_Do env req w1 of ((resp, err), w2) \<Rightarrow>
      (case err of Some e \<Rightarrow> (([], Some e), w2) | None \<Rightarrow>
      if StatusCode resp \<noteq> 200 then (([], Some (errorString (Status resp))), w2) else
      (case ReadAll resp w2 of ((data, err), w3) \<Rightarrow>
      (case err of Some e \<Rightarrow> (([], Some e), w3) | None \<Rightarrow>
      (Unmarshal_message env data [], w3)))))))))"

definition DeleteAnnotation ::
  "('c, 'q, 'u) env \<Rightarrow> int64 \<Rightarrow> ('c, 'q) world \<Rightarrow> (string \<times> error option) \<times> ('c, 'q) world" where
  "DeleteAnnotation env aid w =
     (let path = ''/api/annotations/'' @ fmt_d aid in
      case c_newRequest env ''DELETE'' path [] (Some []) w of ((req, err), w1) \<Rightarrow>
      (case err of Some e \<Rightarrow> (([], Some e), w1) | None \<Rightarrow>
      (case c_Do env req w1 of ((resp, err), w2) \<Rightarrow>
      (case err of Some e \<Rightarrow> (([], Some e), w2) | None \<Rightarrow>
      if StatusCode resp \<noteq> 200 then (([], Some (errorString (Status resp))), w2) else
      (case ReadAll resp w2 of ((data, err), w3) \<Rightarrow>
      (case err of Some e \<Rightarrow> (([], Some e), w3) | None \<Rightarrow>
      (Unmarshal_message env data [], w3)))))))"

definition DeleteAnnotationByRegionID ::
  "('c, 'q, 'u) env \<Rightarrow> int64 \<Rightarrow> ('c, 'q) world \<Rightarrow> (string \<times> error option) \<times> ('c, 'q) world" where
  "DeleteAnnotationByRegionID env aid w =
     (let path = ''/api/annotations/region/'' @ fmt_d aid in
      case c_newRequest env ''DELETE'' path [] (Some []) w of ((req, err), w1) \<Rightarrow>
      (case err of Some e \<Rightarrow> (([], Some e), w1) | None \<Rightarrow>
      (case c_Do env req w1 of ((resp, err), w2) \<Rightarrow>
      (case err of Some e \<Rightarrow> (([], Some e), w2) | None \<Rightarrow>
      if StatusCode resp \<noteq> 200 then (([], Some (errorString (Status resp))), w2) else
      (case ReadAll resp w2 of ((data, err), w3) \<Rightarrow>
      (case err of Some e \<Rightarrow> (([], Some e), w3) | None \<Rightarrow>
      (Unmarshal_message env data [], w3)))))))"

section \<open>orgs.go\<close>

text \<open>The loop of \<^verbatim>\<open>OrgUsers.Users\<close>, with the slice \<open>users\<close> it appends to.\<close>

fun Users_loop :: "'u slice \<Rightarrow> 'u OrgUser list \<Rightarrow> 'u slice" where
  "Users_loop users [] = users"
| "Users_loop users (ou # ous) = Users_loop (append_slice users (User ou)) ous"

definition OrgUsers_Users :: "'u OrgUsers \<Rightarrow> 'u slice" where
  "OrgUsers_Users ousers = Users_loop (Slice []) (elems ousers)"

definition Org_String :: "Org \<Rightarrow> string" where
  "Org_String o' = Name o'"

definition Org_AddUser ::
  "('c, 'q, 'u) env \<Rightarrow> Org \<Rightarrow> string \<Rightarrow> string \<Rightarrow> ('c, 'q) world \<Rightarrow> error option \<times> ('c, 'q) world" where
  "Org_AddUser env o' username role w =
     (let validRole = (role = OrgUserRoleAdmin \<or> role = OrgUserRoleEditor \<or> role = OrgUserRoleViewer) in
      if \<not> validRole then (Some (errorString (''invalid role name: '' @ role)), w) else
      (case Marshal_map env [(''role'', role), (''loginOrEmail'', username)] of (data, err) \<Rightarrow>
      (case err of Some e \<Rightarrow> (Some e, w) | None \<Rightarrow>
      (case c_newRequest env ''POST'' (''/api/orgs/'' @ fmt_d (Org_Id o') @ ''/users'') [] (Some data) w of
         ((req, err), w1) \<Rightarrow>
      (case err of Some e \<Rightarrow> (Some e, w1) | None \<Rightarrow>
      (case c_Do env req w1 of ((resp, err), w2) \<Rightarrow>
      (case err of Some e \<Rightarrow> (Some e, w2) | None \<Rightarrow>
      if StatusCode resp \<noteq> 200 then (Some (errorString (Status resp)), w2) else
      (case ReadAll resp w2 of ((data, err), w3) \<Rightarrow> (err, w3)))))))))"

text \<open>The type \<^verbatim>\<open>Dashboard\<close> is declared in another file: a parameter \<open>'d\<close>.\<close>

definition Org_Dashboards ::
  "Org \<Rightarrow> ('c, 'q) world \<Rightarrow> ('d slice \<times> error option) \<times> ('c, 'q) world" where
  "Org_Dashboards o' w = ((Slice [], Some (errorString ''not implemented'')), w)"

definition Org_Users ::
  "('c, 'q, 'u) env \<Rightarrow> Org \<Rightarrow> ('c, 'q) world \<Rightarrow> ('u OrgUser slice \<times> error option) \<times> ('c, 'q) world" where
  "Org_Users env o' w =
     (let ousers = Slice [] in
      case c_newRequest env ''GET'' (''/api/orgs/'' @ fmt_d (Org_Id o') @ ''/users'') [] None w of
         ((req, err), w1) \<Rightarrow>
      (case err of Some e \<Rightarrow> ((ousers, Some e), w1) | None \<Rightarrow>
      (case c_Do env req w1 of ((resp, err), w2) \<Rightarrow>
      (case err of Some e \<Rightarrow> ((ousers, Some e), w2) | None \<Rightarrow>
      if StatusCode resp \<noteq> 200 then ((ousers, Some (errorString (Status resp))), w2) else
      (case ReadAll resp w2 of ((data, err), w3) \<Rightarrow>
      (case err of Some e \<Rightarrow> ((ousers, Some e), w3) | None \<Rightarrow>
      (Unmarshal_OrgUsers env data ousers, w3)))))))"

definition Org_RemoveUser ::
  "('c, 'q, 'u) env \<Rightarrow> Org \<Rightarrow> int64 \<Rightarrow> ('c, 'q) world \<Rightarrow> error option \<times> ('c, 'q) world" where
  "Org_RemoveUser env o' userID w =
     (case c_newRequest env ''DELETE''
             (''/api/orgs/'' @ fmt_d (Org_Id o') @ ''/users/'' @ fmt_d userID) [] None w of
         ((req, err), w1) \<Rightarrow>
      (case err of Some e \<Rightarrow> (Some e, w1) | None \<Rightarrow>
      (case c_Do env req w1 of ((resp, err), w2) \<Rightarrow>
      (case err of Some e \<Rightarrow> (Some e, w2) | None \<Rightarrow>
      if StatusCode resp \<noteq> 200 then (Some (errorString (Status resp)), w2) else
      (case ReadAll resp w2 of ((data, err), w3) \<Rightarrow> (err, w3))))))"

definition Client_Org ::
  "('c, 'q, 'u) env \<Rightarrow> int64 \<Rightarrow> ('c, 'q) world \<Rightarrow> (Org \<times> error option) \<times> ('c, 'q) world" where
  "Client_Org env oid w =
     (let org = zero_Org in
      case c_newRequest env ''GET'' (''/api/orgs/'' @ fmt_d oid) [] None w of ((req, err), w1) \<Rightarrow>
      (case err of Some e \<Rightarrow> ((org, Some e), w1) | None \<Rightarrow>
      (case c_Do env req w1 of ((resp, err), w2) \<Rightarrow>
      (case err of Some e \<Rightarrow> ((org, Some e), w2) | None \<Rightarrow>
      if StatusCode resp \<noteq> 200 then ((org, Some (errorString (Status resp))), w2) else
      (case ReadAll resp w2 of ((data, err), w3) \<Rightarrow>
      (case err of Some e \<Rightarrow> ((org, Some e), w3) | None \<Rightarrow>
      (Unmarshal_Org env data org, w3)))))))"

definition OrgByName ::
  "('c, 'q, 'u) env \<Rightarrow> string \<Rightarrow> ('c, 'q) world \<Rightarrow> (Org \<times> error option) \<times> ('c, 'q) world" where
  "OrgByName env name w =
     (let org = zero_Org in
      case c_newRequest env ''GET'' (''/api/orgs/name/'' @ name) [] None w of ((req, err), w1) \<Rightarrow>
      (case err of Some e \<Rightarrow> ((org, Some e), w1) | None \<Rightarrow>
      (case c_Do env req w1 of ((resp, err), w2) \<Rightarrow>
      (case err of Some e \<Rightarrow> ((org, Some e), w2) | None \<Rightarrow>
      if StatusCode resp \<noteq> 200 then ((org, Some (errorString (Status resp))), w2) else
      (case ReadAll resp w2 of ((data, err), w3) \<Rightarrow>
      (case err of Some e \<Rightarrow> ((org, Some e), w3) | None \<Rightarrow>
      (Unmarshal_Org env data org, w3)))))))"

definition Orgs ::
  "('c, 'q, 'u) env \<Rightarrow> ('c, 'q) world \<Rightarrow> (Org slice \<times> error option) \<times> ('c, 'q) world" where
  "Orgs env w =
     (let orgs = Slice [] in
      case c_newRequest env ''GET'' ''/api/orgs/'' [] None w of ((req, err), w1) \<Rightarrow>
      (case err of Some e \<Rightarrow> ((orgs, Some e), w1) | None \<Rightarrow>
      (case c_Do env req w1 of ((resp, err), w2) \<Rightarrow>
      (case err of Some e \<Rightarrow> ((orgs, Some e), w2) | None \<Rightarrow>
      if StatusCode resp \<noteq> 200 then ((orgs, Some (errorString (Status resp))), w2) else
      (case ReadAll resp w2 of ((data, err), w3) \<Rightarrow>
      (case err of Some e \<Rightarrow> ((orgs, Some e), w3) | None \<Rightarrow>
      (Unmarshal_Orgs env data orgs, w3)))))))"

text \<open>
  \<^verbatim>\<open>NewOrg\<close> assigns the error of \<^verbatim>\<open>json.Marshal\<close> to \<open>err\<close> and overwrites it with the
  error of \<^verbatim>\<open>newRequest\<close> before looking at it; the bytes are used whatever the error was.
  After the status check it reads the body, calls \<^verbatim>\<open>json.Unmarshal\<close> without keeping its
  result, and returns the error of the read.
\<close>

definition NewOrg ::
  "('c, 'q, 'u) env \<Rightarrow> string \<Rightarrow> ('c, 'q) world \<Rightarrow> (Org \<times> error option) \<times> ('c, 'q) world" where
  "NewOrg env name w =
     (let org = \<lparr>Org_Id = 0, Name = name\<rparr> in
      case Marshal_Org env org of (data, err) \<Rightarrow>
      (case c_newRequest env ''POST'' ''/api/orgs'' [] (Some data) w of ((req, err), w1) \<Rightarrow>
      (case err of Some e \<Rightarrow> ((org, Some e), w1) | None \<Rightarrow>
      (case c_Do env req w1 of ((resp, err), w2) \<Rightarrow>
      (case err of Some e \<Rightarrow> ((org, Some e), w2) | None \<Rightarrow>
      if StatusCode resp \<noteq> 200 then ((org, Some (errorString (Status resp))), w2) else
      (case ReadAll resp w2 of ((data, err), w3) \<Rightarrow>
      (case Unmarshal_orgId env data 0 of (body, _) \<Rightarrow>
      ((org\<lparr>Org_Id := body\<rparr>, err), w3))))))))"

definition DeleteOrg ::
  "('c, 'q, 'u) env \<Rightarrow> int64 \<Rightarrow> ('c, 'q) world \<Rightarrow> error option \<times> ('c, 'q) world" where
  "DeleteOrg env oid w =
     (case c_newRequest env ''DELETE'' (''/api/orgs/'' @ fmt_d oid) [] None w of ((req, err), w1) \<Rightarrow>
      (case err of Some e \<Rightarrow> (Some e, w1) | None \<Rightarrow>
      (case c_Do env req w1 of ((resp, err), w2) \<Rightarrow>
      (case err of Some e \<Rightarrow> (Some e, w2) | None \<Rightarrow>
      if StatusCode resp \<noteq> 200 then (Some (errorString (Status resp)), w2) else
      (err, w2)))))"

section \<open>An environment to run the operations in\<close>

subsection \<open>JSON text\<close>

text \<open>
  The operations hold for every environment. To run them on the documents of a server, the
  decoder of the following environment reads JSON text as \<^verbatim>\<open>encoding/json\<close> does on
  ASCII documents: the grammar of RFC 8259 with the library's limit on nesting (a document
  that is not JSON, or is nested too deep, is an error and leaves the target as it was),
  members matched to fields by name without regard to the case of the letters A to Z,
  \<^verbatim>\<open>null\<close> leaving a number, string or boolean as it was and making a slice nil, a value of
  the wrong kind reported after the rest of the document has been decoded, the first such
  error being the one returned. The escape \<^verbatim>\<open>\u\<close> in a string is not read (such a
  document is refused here, where the library decodes it), bytes above 127 are taken as
  they are (the library replaces those that are not UTF-8 and folds the case of letters
  beyond ASCII), and the messages of the decoder's errors are not those of the library.
\<close>

datatype json = JNull | JBool bool | JNumber string | JString string
  | JArray "json list" | JObject "(string \<times> json) list"

datatype token = LBrace | RBrace | LBrack | RBrack | Colon | Comma
  | TString string | TWord string

definition is_ws :: "char \<Rightarrow> bool" where
  "is_ws c = (c \<in> set [CHR '' '', CHR 0x09, CHR 0x0A, CHR 0x0D])"

definition is_digit :: "char \<Rightarrow> bool" where
  "is_digit c = (c \<in> set ''0123456789'')"

text \<open>The characters of a number and of the literals \<^verbatim>\<open>null\<close>, \<^verbatim>\<open>true\<close>, \<^verbatim>\<open>false\<close>.\<close>

definition word_char :: "char \<Rightarrow> bool" where
  "word_char c = (c \<in> set ''0123456789+-.eEaflnrstu'')"

definition punct :: "char \<Rightarrow> token option" where
  "punct c = map_of [(CHR ''{'', LBrace), (CHR ''}'', RBrace), (CHR ''['', LBrack),
                     (CHR '']'', RBrack), (CHR '':'', Colon), (CHR '','', Comma)] c"

definition unescape :: "char \<Rightarrow> char option" where
  "unescape c = map_of [(CHR 0x22, CHR 0x22), (CHR 0x5C, CHR 0x5C), (CHR ''/'', CHR ''/''),
                        (CHR ''b'', CHR 0x08), (CHR ''f'', CHR 0x0C), (CHR ''n'', CHR 0x0A),
                        (CHR ''r'', CHR 0x0D), (CHR ''t'', CHR 0x09)] c"

datatype lexmode = LexDefault | LexString string | LexEscape string | LexWord string

fun tokens :: "lexmode \<Rightarrow> string \<Rightarrow> token list option" where
  "tokens LexDefault [] = Some []"
| "tokens (LexString acc) [] = None"
| "tokens (LexEscape acc) [] = None"
| "tokens (LexWord acc) [] = Some [TWord (rev acc)]"
| "tokens LexDefault (c # cs) =
     (if is_ws c then tokens LexDefault cs
      else if c = CHR 0x22 then tokens (LexString []) cs
      else if word_char c then tokens (LexWord [c]) cs
      else (case punct c of None \<Rightarrow> None
            | Some t \<Rightarrow> map_option (Cons t) (tokens LexDefault cs)))"
| "tokens (LexString acc) (c # cs) =
     (if c = CHR 0x22 then map_option (Cons (TString (rev acc))) (tokens LexDefault cs)
      else if c = CHR 0x5C then tokens (LexEscape acc) cs
      else if (of_char c :: nat) < 32 then None
      else tokens (LexString (c # acc)) cs)"
| "tokens (LexEscape acc) (c # cs) =
     (case unescape c of None \<Rightarrow> None | Some d \<Rightarrow> tokens (LexString (d # acc)) cs)"
| "tokens (LexWord acc) (c # cs) =
     (if word_char c then tokens (LexWord (c # acc)) cs
      else if is_ws c then map_option (Cons (TWord (rev acc))) (tokens LexDefault cs)
      else (case punct c of None \<Rightarrow> None
            | Some t \<Rightarrow> map_option (\<lambda>ts. TWord (rev acc) # t # ts) (tokens LexDefault cs)))"

definition digits_ok :: "string \<Rightarrow> bool" where
  "digits_ok s = (s \<noteq> [] \<and> list_all is_digit s)"

definition exp_ok :: "string \<Rightarrow> bool" where
  "exp_ok s = (case s of [] \<Rightarrow> True
     | c # r \<Rightarrow> (c = CHR ''e'' \<or> c = CHR ''E'') \<and>
         (case r of [] \<Rightarrow> False
          | d # r' \<Rightarrow> if d = CHR ''+'' \<or> d = CHR ''-'' then digits_ok r' else digits_ok r))"

definition frac_ok :: "string \<Rightarrow> bool" where
  "frac_ok s = (case s of [] \<Rightarrow> True
     | c # r \<Rightarrow> if c = CHR ''.'' then takeWhile is_digit r \<noteq> [] \<and> exp_ok (dropWhile is_digit r)
                else exp_ok s)"

definition is_number :: "string \<Rightarrow> bool" where
  "is_number s =
     (let u = (case s of [] \<Rightarrow> [] | c # r \<Rightarrow> if c = CHR ''-'' then r else s);
          ip = takeWhile is_digit u
      in ip \<noteq> [] \<and> (length ip = 1 \<or> hd ip \<noteq> CHR ''0'') \<and> frac_ok (dropWhile is_digit u))"

definition word_value :: "string \<Rightarrow> json option" where
  "word_value s =
     (if s = ''null'' then Some JNull
      else if s = ''true'' then Some (JBool True)
      else if s = ''false'' then Some (JBool False)
      else if is_number s then Some (JNumber s)
      else None)"

text \<open>
  The parser reads the tokens from left to right with a stack of the arrays and objects
  that are open: \<open>ArrayF\<close> and \<open>ObjectF\<close> hold what was read of them, last first,
  \<open>MemberF\<close> is an object that has read a key and waits for its value.
\<close>

datatype frame = ArrayF "json list" | ObjectF "(string \<times> json) list"
  | MemberF "(string \<times> json) list" string

datatype pstate =
    P_value "frame list"
  | P_value_or_close "frame list"
  | P_key_or_close "frame list"
  | P_key "frame list"
  | P_colon "frame list"
  | P_after "frame list"
  | P_done json

fun push_value :: "frame list \<Rightarrow> json \<Rightarrow> pstate option" where
  "push_value [] v = Some (P_done v)"
| "push_value (ArrayF es # st) v = Some (P_after (ArrayF (v # es) # st))"
| "push_value (MemberF ms k # st) v = Some (P_after (ObjectF ((k, v) # ms) # st))"
| "push_value (ObjectF ms # st) v = None"

text \<open>
  The decoder of \<^verbatim>\<open>encoding/json\<close> refuses a document in which arrays and objects are
  nested more than \<^verbatim>\<open>maxNestingDepth\<close> deep ("exceeded max depth"): an array or object may
  be opened while fewer than that many are open.
\<close>

definition maxNestingDepth :: nat where
  "maxNestingDepth = 10000"

fun begin_value :: "frame list \<Rightarrow> token \<Rightarrow> pstate option" where
  "begin_value st LBrace =
     (if length st < maxNestingDepth then Some (P_key_or_close (ObjectF [] # st)) else None)"
| "begin_value st LBrack =
     (if length st < maxNestingDepth then Some (P_value_or_close (ArrayF [] # st)) else None)"
| "begin_value st (TString s) = push_value st (JString s)"
| "begin_value st (TWord s) = (case word_value s of None \<Rightarrow> None | Some v \<Rightarrow> push_value st v)"
| "begin_value st _ = None"

fun begin_key :: "frame list \<Rightarrow> token \<Rightarrow> pstate option" where
  "begin_key (ObjectF ms # st) (TString k) = Some (P_colon (MemberF ms k # st))"
| "begin_key _ _ = None"

fun pstep :: "pstate \<Rightarrow> token \<Rightarrow> pstate option" where
  "pstep (P_value st) t = begin_value st t"
| "pstep (P_value_or_close st) t =
     (case (st, t) of (ArrayF es # st', RBrack) \<Rightarrow> push_value st' (JArray (rev es))
      | _ \<Rightarrow> begin_value st t)"
| "pstep (P_key_or_close st) t =
     (case (st, t) of (ObjectF ms # st', RBrace) \<Rightarrow> push_value st' (JObject (rev ms))
      | _ \<Rightarrow> begin_key st t)"
| "pstep (P_key st) t = begin_key st t"
| "pstep (P_colon st) t = (if t = Colon then Some (P_value st) else None)"
| "pstep (P_after st) t =
     (case (st, t) of
        (ArrayF es # st', Comma) \<Rightarrow> Some (P_value st)
      | (ArrayF es # st', RBrack) \<Rightarrow> push_value st' (JArray (rev es))
      | (ObjectF ms # st', Comma) \<Rightarrow> Some (P_key st)
      | (ObjectF ms # st', RBrace) \<Rightarrow> push_value st' (JObject (rev ms))
      | _ \<Rightarrow> None)"
| "pstep (P_done v) t = None"

fun prun :: "pstate \<Rightarrow> token list \<Rightarrow> json option" where
  "prun (P_done v) [] = Some v"
| "prun _ [] = None"
| "prun p (t # ts) = (case pstep p t of None \<Rightarrow> None | Some p' \<Rightarrow> prun p' ts)"

definition parse_json :: "string \<Rightarrow> json option" where
  "parse_json s = (case tokens LexDefault s of None \<Rightarrow> None | Some ts \<Rightarrow> prun (P_value []) ts)"

subsection \<open>Decoding into the values of the package\<close>

definition lower :: "char \<Rightarrow> char" where
  "lower c = (case map_of (zip ''ABCDEFGHIJKLMNOPQRSTUVWXYZ'' ''abcdefghijklmnopqrstuvwxyz'') c of
                None \<Rightarrow> c | Some d \<Rightarrow> d)"

definition fold_eq :: "string \<Rightarrow> string \<Rightarrow> bool" where
  "fold_eq a b = (map lower a = map lower b)"

definition digit_val :: "char \<Rightarrow> nat" where
  "digit_val c = (case map_of (zip ''0123456789'' [0, 1, 2, 3, 4, 5, 6, 7, 8, 9]) c of
                    None \<Rightarrow> 0 | Some d \<Rightarrow> d)"

definition nat_of_digits :: "string \<Rightarrow> nat" where
  "nat_of_digits s = foldl (\<lambda>n c. 10 * n + digit_val c) 0 s"

text \<open>\<^verbatim>\<open>strconv.ParseInt(s, 10, 64)\<close> on the text of a JSON number.\<close>

definition parse_int64 :: "string \<Rightarrow> int64 option" where
  "parse_int64 s =
     (let neg = (s \<noteq> [] \<and> hd s = CHR ''-'');
          ds = (if neg then tl s else s);
          i = (if neg then - int (nat_of_digits ds) else int (nat_of_digits ds))
      in if digits_ok ds \<and> - (2 ^ 63) \<le> i \<and> i < 2 ^ 63 then Some (word_of_int i) else None)"

definition type_error :: error where
  "type_error = jsonError ''json: cannot unmarshal value into Go value''"

definition syntax_error :: error where
  "syntax_error = jsonError ''json: invalid document''"

definition first_error :: "error option \<Rightarrow> error option \<Rightarrow> error option" where
  "first_error e1 e2 = (case e1 of Some e \<Rightarrow> Some e | None \<Rightarrow> e2)"

fun dec_int64 :: "json \<Rightarrow> int64 \<Rightarrow> int64 \<times> error option" where
  "dec_int64 JNull v = (v, None)"
| "dec_int64 (JNumber s) v = (case parse_int64 s of Some n \<Rightarrow> (n, None) | None \<Rightarrow> (v, Some type_error))"
| "dec_int64 _ v = (v, Some type_error)"

fun dec_string :: "json \<Rightarrow> string \<Rightarrow> string \<times> error option" where
  "dec_string JNull v = (v, None)"
| "dec_string (JString s) v = (s, None)"
| "dec_string _ v = (v, Some type_error)"

fun dec_bool :: "json \<Rightarrow> bool \<Rightarrow> bool \<times> error option" where
  "dec_bool JNull v = (v, None)"
| "dec_bool (JBool b) v = (b, None)"
| "dec_bool _ v = (v, Some type_error)"

text \<open>
  A JSON array read into a slice: every element is decoded into a new, zero element, as
  the library does for a slice that is empty before the call (the operations always hand
  over an empty slice; a slice that already has elements, as when a member is repeated in
  the document, has them decoded into by the library). \<^verbatim>\<open>null\<close> makes the slice nil.
\<close>

fun dec_elems :: "(json \<Rightarrow> 'a \<Rightarrow> 'a \<times> error option) \<Rightarrow> 'a \<Rightarrow> json list \<Rightarrow> 'a list \<times> error option" where
  "dec_elems f z [] = ([], None)"
| "dec_elems f z (j # js) =
     (case f j z of (x, e1) \<Rightarrow>
      (case dec_elems f z js of (xs, e2) \<Rightarrow> (x # xs, first_error e1 e2)))"

fun dec_slice :: "(json \<Rightarrow> 'a \<Rightarrow> 'a \<times> error option) \<Rightarrow> 'a \<Rightarrow> json \<Rightarrow> 'a slice \<Rightarrow> 'a slice \<times> error option" where
  "dec_slice f z JNull v = (NilSlice, None)"
| "dec_slice f z (JArray js) v = (case dec_elems f z js of (xs, e) \<Rightarrow> (Slice xs, e))"
| "dec_slice f z _ v = (v, Some type_error)"

text \<open>
  A JSON object read into a struct: the members in order, each by the function \<open>f\<close> of
  the struct, which takes the key, the value and the struct so far.
\<close>

fun dec_members :: "(string \<Rightarrow> json \<Rightarrow> 'a \<Rightarrow> 'a \<times> error option) \<Rightarrow> (string \<times> json) list \<Rightarrow> 'a \<Rightarrow> 'a \<times> error option" where
  "dec_members f [] v = (v, None)"
| "dec_members f ((k, j) # ms) v =
     (case f k j v of (v1, e1) \<Rightarrow>
      (case dec_members f ms v1 of (v2, e2) \<Rightarrow> (v2, first_error e1 e2)))"

fun dec_struct :: "(string \<Rightarrow> json \<Rightarrow> 'a \<Rightarrow> 'a \<times> error option) \<Rightarrow> json \<Rightarrow> 'a \<Rightarrow> 'a \<times> error option" where
  "dec_struct f JNull v = (v, None)"
| "dec_struct f (JObject ms) v = dec_members f ms v"
| "dec_struct f _ v = (v, Some type_error)"

definition unmarshal :: "(json \<Rightarrow> 'a \<Rightarrow> 'a \<times> error option) \<Rightarrow> bytes \<Rightarrow> 'a \<Rightarrow> 'a \<times> error option" where
  "unmarshal dec data v = (case parse_json data of None \<Rightarrow> (v, Some syntax_error) | Some j \<Rightarrow> dec j v)"

text \<open>A struct with the one field \<open>name\<close>, of type \<^verbatim>\<open>int64\<close> or \<^verbatim>\<open>string\<close>.\<close>

definition int64_field :: "string \<Rightarrow> string \<Rightarrow> json \<Rightarrow> int64 \<Rightarrow> int64 \<times> error option" where
  "int64_field name k j v = (if fold_eq k name then dec_int64 j v else (v, None))"

definition string_field :: "string \<Rightarrow> string \<Rightarrow> json \<Rightarrow> string \<Rightarrow> string \<times> error option" where
  "string_field name k j v = (if fold_eq k name then dec_string j v else (v, None))"

definition Annotation_member :: "string \<Rightarrow> json \<Rightarrow> Annotation \<Rightarrow> Annotation \<times> error option" where
  "Annotation_member k j a =
     (if fold_eq k ''id'' then (case dec_int64 j (ID a) of (x, e) \<Rightarrow> (a\<lparr>ID := x\<rparr>, e))
      else if fold_eq k ''alertId'' then (case dec_int64 j (AlertID a) of (x, e) \<Rightarrow> (a\<lparr>AlertID := x\<rparr>, e))
      else if fold_eq k ''dashboardId'' then (case dec_int64 j (DashboardID a) of (x, e) \<Rightarrow> (a\<lparr>DashboardID := x\<rparr>, e))
      else if fold_eq k ''panelId'' then (case dec_int64 j (PanelID a) of (x, e) \<Rightarrow> (a\<lparr>PanelID := x\<rparr>, e))
      else if fold_eq k ''userId'' then (case dec_int64 j (UserID a) of (x, e) \<Rightarrow> (a\<lparr>UserID := x\<rparr>, e))
      else if fold_eq k ''userName'' then (case dec_string j (UserName a) of (x, e) \<Rightarrow> (a\<lparr>UserName := x\<rparr>, e))
      else if fold_eq k ''newState'' then (case dec_string j (NewState a) of (x, e) \<Rightarrow> (a\<lparr>NewState := x\<rparr>, e))
      else if fold_eq k ''prevState'' then (case dec_string j (PrevState a) of (x, e) \<Rightarrow> (a\<lparr>PrevState := x\<rparr>, e))
      else if fold_eq k ''time'' then (case dec_int64 j (Time a) of (x, e) \<Rightarrow> (a\<lparr>Time := x\<rparr>, e))
      else if fold_eq k ''timeEnd'' then (case dec_int64 j (TimeEnd a) of (x, e) \<Rightarrow> (a\<lparr>TimeEnd := x\<rparr>, e))
      else if fold_eq k ''text'' then (case dec_string j (Text a) of (x, e) \<Rightarrow> (a\<lparr>Text := x\<rparr>, e))
      else if fold_eq k ''metric'' then (case dec_string j (Metric a) of (x, e) \<Rightarrow> (a\<lparr>Metric := x\<rparr>, e))
      else if fold_eq k ''regionId'' then (case dec_int64 j (RegionID a) of (x, e) \<Rightarrow> (a\<lparr>RegionID := x\<rparr>, e))
      else if fold_eq k ''type'' then (case dec_string j (Type a) of (x, e) \<Rightarrow> (a\<lparr>Type := x\<rparr>, e))
      else if fold_eq k ''tags'' then (case dec_slice dec_string [] j (Tags a) of (x, e) \<Rightarrow> (a\<lparr>Tags := x\<rparr>, e))
      else if fold_eq k ''isRegion'' then (case dec_bool j (IsRegion a) of (x, e) \<Rightarrow> (a\<lparr>IsRegion := x\<rparr>, e))
      else (a, None))"

definition Org_member :: "string \<Rightarrow> json \<Rightarrow> Org \<Rightarrow> Org \<times> error option" where
  "Org_member k j g =
     (if fold_eq k ''id'' then (case dec_int64 j (Org_Id g) of (x, e) \<Rightarrow> (g\<lparr>Org_Id := x\<rparr>, e))
      else if fold_eq k ''name'' then (case dec_string j (Name g) of (x, e) \<Rightarrow> (g\<lparr>Name := x\<rparr>, e))
      else (g, None))"

text \<open>
  The fields of \<^verbatim>\<open>User\<close> are declared in another file; the users of this environment have
  none, and an \<^verbatim>\<open>OrgUser\<close> is read for its role and its organisation.
\<close>

definition OrgUser_member :: "string \<Rightarrow> json \<Rightarrow> unit OrgUser \<Rightarrow> unit OrgUser \<times> error option" where
  "OrgUser_member k j u =
     (if fold_eq k ''role'' then (case dec_string j (Role u) of (x, e) \<Rightarrow> (u\<lparr>Role := x\<rparr>, e))
      else if fold_eq k ''orgId'' then (case dec_int64 j (OrgID u) of (x, e) \<Rightarrow> (u\<lparr>OrgID := x\<rparr>, e))
      else (u, None))"

subsection \<open>Encoding\<close>

text \<open>
  \<^verbatim>\<open>json.Marshal\<close> on the values the operations send: the members of a struct in the order
  of its fields, a field tagged \<^verbatim>\<open>omitempty\<close> left out when it is zero, empty or false, the
  members of a map sorted by key, and in a string the quote, the backslash, the control
  characters and \<^verbatim>\<open><\<close>, \<^verbatim>\<open>>\<close>, \<^verbatim>\<open>&\<close> escaped. It never fails on these values. Bytes
  above 127 are written as they are: the library also escapes the line and paragraph
  separators U+2028 and U+2029 and replaces bytes that are not UTF-8.
\<close>

definition hex_digit :: "nat \<Rightarrow> char" where
  "hex_digit n = ''0123456789abcdef'' ! (n mod 16)"

definition escape_char :: "char \<Rightarrow> string" where
  "escape_char c =
     (if c = CHR 0x22 then [CHR 0x5C, CHR 0x22]
      else if c = CHR 0x5C then [CHR 0x5C, CHR 0x5C]
      else if c = CHR 0x08 then [CHR 0x5C, CHR ''b'']
      else if c = CHR 0x0C then [CHR 0x5C, CHR ''f'']
      else if c = CHR 0x0A then [CHR 0x5C, CHR ''n'']
      else if c = CHR 0x0D then [CHR 0x5C, CHR ''r'']
      else if c = CHR 0x09 then [CHR 0x5C, CHR ''t'']
      else if (of_char c :: nat) < 32 \<or> c \<in> set ''<>&''
      then [CHR 0x5C, CHR ''u'', CHR ''0'', CHR ''0'',
            hex_digit (of_char c div 16), hex_digit (of_char c)]
      else [c])"

definition json_quote :: "string \<Rightarrow> string" where
  "json_quote s = CHR 0x22 # concat (map escape_char s) @ [CHR 0x22]"

fun commas :: "string list \<Rightarrow> string" where
  "commas [] = []"
| "commas [x] = x"
| "commas (x # xs) = x @ '','' @ commas xs"

definition json_member :: "string \<Rightarrow> string \<Rightarrow> string" where
  "json_member k v = json_quote k @ '':'' @ v"

definition json_object :: "string list \<Rightarrow> string" where
  "json_object ms = ''{'' @ commas ms @ ''}''"

definition json_strings :: "string slice \<Rightarrow> string" where
  "json_strings s = ''['' @ commas (map json_quote (elems s)) @ '']''"

definition enc_Annotation :: "Annotation \<Rightarrow> bytes \<times> error option" where
  "enc_Annotation a =
     (json_object (
        (if ID a = 0 then [] else [json_member ''id'' (fmt_d (ID a))]) @
        (if AlertID a = 0 then [] else [json_member ''alertId'' (fmt_d (AlertID a))]) @
        [json_member ''dashboardId'' (fmt_d (DashboardID a)), json_member ''panelId'' (fmt_d (PanelID a))] @
        (if UserID a = 0 then [] else [json_member ''userId'' (fmt_d (UserID a))]) @
        (if UserName a = [] then [] else [json_member ''userName'' (json_quote (UserName a))]) @
        (if NewState a = [] then [] else [json_member ''newState'' (json_quote (NewState a))]) @
        (if PrevState a = [] then [] else [json_member ''prevState'' (json_quote (PrevState a))]) @
        [json_member ''time'' (fmt_d (Time a))] @
        (if TimeEnd a = 0 then [] else [json_member ''timeEnd'' (fmt_d (TimeEnd a))]) @
        [json_member ''text'' (json_quote (Text a))] @
        (if Metric a = [] then [] else [json_member ''metric'' (json_quote (Metric a))]) @
        (if RegionID a = 0 then [] else [json_member ''regionId'' (fmt_d (RegionID a))]) @
        (if Type a = [] then [] else [json_member ''type'' (json_quote (Type a))]) @
        (if elems (Tags a) = [] then [] else [json_member ''tags'' (json_strings (Tags a))]) @
        (if IsRegion a then [json_member ''isRegion'' ''true''] else [])), None)"

definition enc_GraphiteAnnotation :: "GraphiteAnnotation \<Rightarrow> bytes \<times> error option" where
  "enc_GraphiteAnnotation g =
     (json_object (
        [json_member ''what'' (json_quote (What g)), json_member ''when'' (fmt_d (When g)),
         json_member ''data'' (json_quote (Data g))] @
        (if elems (Graphite_Tags g) = [] then [] else [json_member ''tags'' (json_strings (Graphite_Tags g))])),
      None)"

fun key_less :: "string \<Rightarrow> string \<Rightarrow> bool" where
  "key_less [] [] = False"
| "key_less [] (y # ys) = True"
| "key_less (x # xs) [] = False"
| "key_less (x # xs) (y # ys) =
     ((of_char x :: nat) < of_char y \<or> (x = y \<and> key_less xs ys))"

fun insert_member :: "string \<times> string \<Rightarrow> (string \<times> string) list \<Rightarrow> (string \<times> string) list" where
  "insert_member m [] = [m]"
| "insert_member m (x # xs) = (if key_less (fst x) (fst m) then x # insert_member m xs else m # x # xs)"

definition enc_map :: "(string \<times> string) list \<Rightarrow> bytes \<times> error option" where
  "enc_map kvs = (json_object (map (\<lambda>(k, v). json_member k (json_quote v)) (foldr insert_member kvs [])), None)"

definition enc_Org :: "Org \<Rightarrow> bytes \<times> error option" where
  "enc_Org g = (json_object [json_member ''id'' (fmt_d (Org_Id g)), json_member ''name'' (json_quote (Name g))], None)"

subsection \<open>Client, request and server\<close>

text \<open>
  Modelled from the spec: \<^verbatim>\<open>Client\<close>, \<^verbatim>\<open>newRequest\<close> and \<^verbatim>\<open>Do\<close> are not in the two files.
  The client configuration is a base URL and a credential; \<open>newRequest\<close> joins the base
  URL and the path and attaches the credential, \<open>Do\<close> hands the request to the transport
  and returns its answer; both read the configuration and leave it as it is.
\<close>

record Client =
  baseURL :: string
  key :: string

record Request =
  Method :: string
  URL :: string
  Query :: Values
  Authorization :: string
  Payload :: "bytes option"

definition Client_newRequest ::
  "Client \<Rightarrow> string \<Rightarrow> string \<Rightarrow> Values \<Rightarrow> bytes option \<Rightarrow> (Request \<times> error option) \<times> Client" where
  "Client_newRequest c method path params body =
     ((\<lparr>Method = method, URL = baseURL c @ path, Query = params,
        Authorization = (if key c = [] then [] else ''Bearer '' @ key c), Payload = body\<rparr>, None), c)"

definition Client_Do ::
  "(Request \<Rightarrow> Response \<times> error option) \<Rightarrow> Client \<Rightarrow> Request \<Rightarrow> (Response \<times> error option) \<times> Client" where
  "Client_Do server c req = (server req, c)"

definition http_env :: "(Request \<Rightarrow> Response \<times> error option) \<Rightarrow> (Client, Request, unit) env" where
  "http_env server =
     \<lparr>newRequest = Client_newRequest,
      Do = Client_Do server,
      Marshal_Annotation = enc_Annotation,
      Marshal_GraphiteAnnotation = enc_GraphiteAnnotation,
      Marshal_map = enc_map,
      Marshal_Org = enc_Org,
      Unmarshal_Annotations = unmarshal (dec_slice (dec_struct Annotation_member) zero_Annotation),
      Unmarshal_id = unmarshal (dec_struct (int64_field ''id'')),
      Unmarshal_message = unmarshal (dec_struct (string_field ''message'')),
      Unmarshal_OrgUsers = unmarshal (dec_slice (dec_struct OrgUser_member) \<lparr>User = (), Role = [], OrgID = 0\<rparr>),
      Unmarshal_Org = unmarshal (dec_struct Org_member),
      Unmarshal_Orgs = unmarshal (dec_slice (dec_struct Org_member) zero_Org),
      Unmarshal_orgId = unmarshal (dec_struct (int64_field ''orgId''))\<rparr>"

text \<open>A server that gives every request the same answer, and a client to call it with.\<close>

definition answer :: "int \<Rightarrow> string \<Rightarrow> bytes \<Rightarrow> Request \<Rightarrow> Response \<times> error option" where
  "answer code status body req = (\<lparr>StatusCode = code, Status = status, Body = (body, None)\<rparr>, None)"

definition grafana :: Client where
  "grafana = \<lparr>baseURL = ''http://localhost:3000'', key = ''secret''\<rparr>"

definition start :: "(Client, Request) world" where
  "start = \<lparr>client = grafana, trace = []\<rparr>"

section \<open>The operations as one interface\<close>

text \<open>
  The operations of the two files that take the client, with their arguments, and what they
  return besides the error. \<open>invoke\<close> runs the operation a call names.
\<close>

datatype call =
    Annotations_call Values
  | Annotation_call int64 Values
  | NewAnnotation_call Annotation
  | NewGraphiteAnnotation_call GraphiteAnnotation
  | UpdateAnnotation_call int64 Annotation
  | PatchAnnotation_call int64 Annotation
  | DeleteAnnotation_call int64
  | DeleteAnnotationByRegionID_call int64
  | AddUser_call Org string string
  | Dashboards_call Org
  | Users_call Org
  | RemoveUser_call Org int64
  | Org_call int64
  | OrgByName_call string
  | Orgs_call
  | NewOrg_call string
  | DeleteOrg_call int64

datatype ('u, 'd) reply =
    Annotations_reply "Annotation slice"
  | Annotation_reply Annotation
  | id_reply int64
  | message_reply string
  | no_reply
  | Dashboards_reply "'d slice"
  | OrgUsers_reply "'u OrgUser slice"
  | Org_reply Org
  | Orgs_reply "Org slice"

definition returns ::
  "('a \<Rightarrow> ('u, 'd) reply) \<Rightarrow> ('a \<times> error option) \<times> ('c, 'q) world
     \<Rightarrow> (('u, 'd) reply \<times> error option) \<times> ('c, 'q) world" where
  "returns f x = (case x of ((r, err), w') \<Rightarrow> ((f r, err), w'))"

definition returns_error ::
  "error option \<times> ('c, 'q) world \<Rightarrow> (('u, 'd) reply \<times> error option) \<times> ('c, 'q) world" where
  "returns_error x = (case x of (err, w') \<Rightarrow> ((no_reply, err), w'))"

fun invoke ::
  "('c, 'q, 'u) env \<Rightarrow> call \<Rightarrow> ('c, 'q) world \<Rightarrow> (('u, 'd) reply \<times> error option) \<times> ('c, 'q) world" where
  "invoke env (Annotations_call params) w = returns Annotations_reply (Annotations env params w)"
| "invoke env (Annotation_call aid params) w = returns Annotation_reply (Annotation env aid params w)"
| "invoke env (NewAnnotation_call a) w = returns id_reply (NewAnnotation env a w)"
| "invoke env (NewGraphiteAnnotation_call gfa) w = returns id_reply (NewGraphiteAnnotation env gfa w)"
| "invoke env (UpdateAnnotation_call aid a) w = returns message_reply (UpdateAnnotation env aid a w)"
| "invoke env (PatchAnnotation_call aid a) w = returns message_reply (PatchAnnotation env aid a w)"
| "invoke env (DeleteAnnotation_call aid) w = returns message_reply (DeleteAnnotation env aid w)"
| "invoke env (DeleteAnnotationByRegionID_call aid) w =
     returns message_reply (DeleteAnnotationByRegionID env aid w)"
| "invoke env (AddUser_call o' username role) w = returns_error (Org_AddUser env o' username role w)"
| "invoke env (Dashboards_call o') w = returns Dashboards_reply (Org_Dashboards o' w)"
| "invoke env (Users_call o') w = returns OrgUsers_reply (Org_Users env o' w)"
| "invoke env (RemoveUser_call o' userID) w = returns_error (Org_RemoveUser env o' userID w)"
| "invoke env (Org_call oid) w = returns Org_reply (Client_Org env oid w)"
| "invoke env (OrgByName_call name) w = returns Org_reply (OrgByName env name w)"
| "invoke env Orgs_call w = returns Orgs_reply (Orgs env w)"
| "invoke env (NewOrg_call name) w = returns Org_reply (NewOrg env name w)"
| "invoke env (DeleteOrg_call oid) w = returns_error (DeleteOrg env oid w)"

text \<open>The events of a call that started in \<open>w\<close> and ended in \<open>w'\<close>.\<close>

definition events :: "('c, 'q) world \<Rightarrow> ('c, 'q) world \<Rightarrow> 'q event list" where
  "events w w' = drop (length (trace w)) (trace w')"

text \<open>
  The value each operation would return with an error if it returned the zero or empty
  value of its result type: nil or an empty slice, \<^verbatim>\<open>Annotation{}\<close>, \<^verbatim>\<open>Org{}\<close>, 0, the
  empty string.
\<close>

fun zero_reply :: "call \<Rightarrow> ('u, 'd) reply" where
  "zero_reply (Annotations_call params) = Annotations_reply NilSlice"
| "zero_reply (Annotation_call aid params) = Annotation_reply zero_Annotation"
| "zero_reply (NewAnnotation_call a) = id_reply 0"
| "zero_reply (NewGraphiteAnnotation_call gfa) = id_reply 0"
| "zero_reply (UpdateAnnotation_call aid a) = message_reply []"
| "zero_reply (PatchAnnotation_call aid a) = message_reply []"
| "zero_reply (DeleteAnnotation_call aid) = message_reply []"
| "zero_reply (DeleteAnnotationByRegionID_call aid) = message_reply []"
| "zero_reply (AddUser_call o' username role) = no_reply"
| "zero_reply (Dashboards_call o') = Dashboards_reply (Slice [])"
| "zero_reply (Users_call o') = OrgUsers_reply (Slice [])"
| "zero_reply (RemoveUser_call o' userID) = no_reply"
| "zero_reply (Org_call oid) = Org_reply zero_Org"
| "zero_reply (OrgByName_call name) = Org_reply zero_Org"
| "zero_reply Orgs_call = Orgs_reply (Slice [])"
| "zero_reply (NewOrg_call name) = Org_reply zero_Org"
| "zero_reply (DeleteOrg_call oid) = no_reply"

text \<open>
  Modelled from the spec: the bodies of \<^verbatim>\<open>newRequest\<close> and \<^verbatim>\<open>Do\<close> are not in the two files.
  The spec has the client configuration immutable after construction and read-only in
  every call: an environment is read-only when both methods leave the client as it was.
\<close>

definition read_only :: "('c, 'q, 'u) env \<Rightarrow> bool" where
  "read_only env =
     ((\<forall>c method path params body. snd (newRequest env c method path params body) = c) \<and>
      (\<forall>c req. snd (Do env c req) = c))"

section \<open>The request executor\<close>

text \<open>
  Every operation that talks to the server repeats the same steps in its own text: build
  the request, send it, and look at the status code. \<open>exchange\<close> is these steps on
  their own, with the four ways they end; the operations above are shown below to be
  \<open>exchange\<close> followed by what each does with the outcome.
\<close>

datatype outcome = RequestFailed error | TransportFailed error | BadStatus Response | Answered Response

definition exchange ::
  "('c, 'q, 'u) env \<Rightarrow> string \<Rightarrow> string \<Rightarrow> Values \<Rightarrow> bytes option \<Rightarrow> ('c, 'q) world
     \<Rightarrow> outcome \<times> ('c, 'q) world" where
  "exchange env method path params body w =
     (case c_newRequest env method path params body w of ((req, err), w1) \<Rightarrow>
      (case err of Some e \<Rightarrow> (RequestFailed e, w1) | None \<Rightarrow>
      (case c_Do env req w1 of ((resp, err), w2) \<Rightarrow>
      (case err of Some e \<Rightarrow> (TransportFailed e, w2) | None \<Rightarrow>
      if StatusCode resp \<noteq> 200 then (BadStatus resp, w2) else (Answered resp, w2)))))"

section \<open>Properties\<close>

subsection \<open>OrgUsers.Users\<close>

lemma Users_loop_elems: "Users_loop (Slice xs) ous = Slice (xs @ map User ous)"
  by (induction ous arbitrary: xs) (simp_all add: append_slice_def)

text \<open>
  C10. \<^verbatim>\<open>OrgUsers.Users()\<close> returns the embedded \<^verbatim>\<open>User\<close> values of the elements of its
  receiver, in the order of the receiver and as many as the receiver has; the result is
  never nil, and on a nil or empty receiver it is the empty slice.
\<close>

theorem OrgUsers_Users_elems:
  "OrgUsers_Users ousers = Slice (map User (elems ousers)) \<and>
   len (OrgUsers_Users ousers) = len ousers \<and>
   OrgUsers_Users ousers \<noteq> NilSlice \<and>
   OrgUsers_Users NilSlice = Slice [] \<and> OrgUsers_Users (Slice []) = Slice []"
  by (simp add: OrgUsers_Users_def Users_loop_elems len_def)

subsection \<open>Org.Dashboards\<close>

text \<open>
  C9. \<^verbatim>\<open>Org.Dashboards\<close> returns an empty dashboard slice and the error "not implemented"
  for every organisation and every client, and leaves the client and the trace as they
  were: it builds no request and sends none.
\<close>

theorem Org_Dashboards_not_implemented:
  "Org_Dashboards o' w = ((Slice [], Some (errorString ''not implemented'')), w) \<and>
   events w (snd (Org_Dashboards o' w)) = []"
  by (simp add: Org_Dashboards_def events_def)

subsection \<open>The path of the annotation list\<close>

text \<open>
  C6. The claim has \<^verbatim>\<open>Client.Annotations\<close> issue GET on \<^verbatim>\<open>/api/annotations\<close>, the path the
  other annotation operations use. The code builds its request, the first thing every call
  does, for the path \<^verbatim>\<open>/api/annotation\<close>, and no request of the call is for
  \<^verbatim>\<open>/api/annotations\<close>.
\<close>

theorem Annotations_request_path:
  "take 1 (events w (snd (Annotations env params w))) =
     [NewRequest_ev ''GET'' ''/api/annotation'' params None] \<and>
   NewRequest_ev ''GET'' ''/api/annotations'' params None
     \<notin> set (events w (snd (Annotations env params w)))"
  by (auto simp: Annotations_def c_newRequest_def c_Do_def ReadAll_def events_def
           split: prod.splits option.splits)

subsection \<open>Evaluating the environment\<close>

lemmas json_eval = parse_json_def maxNestingDepth_def is_ws_def word_char_def punct_def word_value_def is_number_def
  is_digit_def frac_ok_def exp_ok_def digits_ok_def unescape_def
  unmarshal_def int64_field_def string_field_def fold_eq_def lower_def parse_int64_def
  nat_of_digits_def digit_val_def first_error_def

lemmas http_eval = c_newRequest_def c_Do_def ReadAll_def http_env_def Client_newRequest_def
  Client_Do_def answer_def start_def grafana_def

lemmas fmt_eval = fmt_d_def itoa_def decimal.simps digit_def

subsection \<open>Fetching one annotation\<close>

lemma scan_Some: "scan aid as = Some a \<Longrightarrow> a \<in> set as \<and> ID a = aid"
  by (induction as) (auto split: if_splits)

lemma scan_first: "scan aid as = (case filter (\<lambda>a. ID a = aid) as of [] \<Rightarrow> None | a # _ \<Rightarrow> Some a)"
  by (induction as) auto

lemma scan_None: "(scan aid as = None) = (\<forall>a \<in> set as. ID a \<noteq> aid)"
  by (induction as) auto

text \<open>
  C3. \<^verbatim>\<open>Client.Annotation(id, params)\<close> fetches the collection with \<^verbatim>\<open>Annotations(params)\<close>
  and does nothing else to the client or the transport. When the fetch returns the list
  \<open>as\<close> with a nil error: if an element of \<open>as\<close> has the ID, the result is such an element
  (the first one) with a nil error; if none has, the result is the zero annotation and the
  error "annotation <id> not found".
\<close>

theorem Annotation_scan:
  assumes "Annotations env params w = ((as, None), w')"
  shows "(if \<exists>a \<in> set (elems as). ID a = aid
          then \<exists>a. Annotation env aid params w = ((a, None), w') \<and> a \<in> set (elems as) \<and> ID a = aid
                 \<and> a = hd (filter (\<lambda>a. ID a = aid) (elems as))
          else Annotation env aid params w =
                 ((zero_Annotation, Some (errorString (''annotation '' @ fmt_d aid @ '' not found''))), w'))"
proof (cases "scan aid (elems as)")
  case None
  then have "\<forall>a \<in> set (elems as). ID a \<noteq> aid" by (simp add: scan_None)
  then show ?thesis using assms None by (simp add: Annotation_def)
next
  case (Some a)
  then have "a \<in> set (elems as)" "ID a = aid" by (auto dest: scan_Some)
  moreover have "a = hd (filter (\<lambda>a. ID a = aid) (elems as))"
    using Some by (simp add: scan_first split: list.splits)
  ultimately show ?thesis using assms Some by (auto simp: Annotation_def)
qed

text \<open>
  The list of the spec: a server that answers \<^verbatim>\<open>[{"id":1},{"id":5}]\<close>. Fetching 5 gives
  the second record, fetching 7 the error.
\<close>

lemma Annotations_two:
  "Annotations (http_env (answer 200 ''200 OK'' ''[{\"id\":1},{\"id\":5}]'')) [] start =
     ((Slice [zero_Annotation\<lparr>ID := 1\<rparr>, zero_Annotation\<lparr>ID := 5\<rparr>], None),
      \<lparr>client = grafana,
       trace = [NewRequest_ev ''GET'' ''/api/annotation'' [] None,
                Do_ev \<lparr>Method = ''GET'', URL = ''http://localhost:3000/api/annotation'', Query = [],
                       Authorization = ''Bearer secret'', Payload = None\<rparr>
                      \<lparr>StatusCode = 200, Status = ''200 OK'', Body = (''[{\"id\":1},{\"id\":5}]'', None)\<rparr> None,
                ReadAll_ev]\<rparr>)"
  by (simp add: Annotations_def http_eval json_eval Annotation_member_def)

theorem Annotation_scan_witness:
  "Annotations (http_env (answer 200 ''200 OK'' ''[{\"id\":1},{\"id\":5}]'')) [] start =
     ((Slice [zero_Annotation\<lparr>ID := 1\<rparr>, zero_Annotation\<lparr>ID := 5\<rparr>], None),
      \<lparr>client = grafana,
       trace = [NewRequest_ev ''GET'' ''/api/annotation'' [] None,
                Do_ev \<lparr>Method = ''GET'', URL = ''http://localhost:3000/api/annotation'', Query = [],
                       Authorization = ''Bearer secret'', Payload = None\<rparr>
                      \<lparr>StatusCode = 200, Status = ''200 OK'', Body = (''[{\"id\":1},{\"id\":5}]'', None)\<rparr> None,
                ReadAll_ev]\<rparr>) \<and>
   fst (Annotation (http_env (answer 200 ''200 OK'' ''[{\"id\":1},{\"id\":5}]'')) 5 [] start) =
     (zero_Annotation\<lparr>ID := 5\<rparr>, None) \<and>
   fst (Annotation (http_env (answer 200 ''200 OK'' ''[{\"id\":1},{\"id\":5}]'')) 7 [] start) =
     (zero_Annotation, Some (errorString ''annotation 7 not found''))"
  using Annotation_scan [OF Annotations_two, of 5] Annotation_scan [OF Annotations_two, of 7]
    Annotations_two
  by (auto simp: zero_Annotation_def fmt_eval)

subsection \<open>The role of a new member\<close>

text \<open>
  C4. \<^verbatim>\<open>Org.AddUser\<close> with a role that is not "Admin", "Editor" or "Viewer" returns the error
  "invalid role name: <role>" and leaves client and trace as they were: no request is built
  and none is sent. With one of the three roles it goes on: once the document is encoded it
  builds the POST request for \<^verbatim>\<open>/api/orgs/<id>/users\<close>, and once the request is built it
  sends it.
\<close>

theorem AddUser_role:
  "(role \<notin> {''Admin'', ''Editor'', ''Viewer''} \<longrightarrow>
      Org_AddUser env o' username role w = (Some (errorString (''invalid role name: '' @ role)), w)) \<and>
   (role \<in> {''Admin'', ''Editor'', ''Viewer''} \<longrightarrow>
      Marshal_map env [(''role'', role), (''loginOrEmail'', username)] = (data, None) \<longrightarrow>
      newRequest env (client w) ''POST'' (''/api/orgs/'' @ fmt_d (Org_Id o') @ ''/users'') [] (Some data)
        = ((req, None), ca) \<longrightarrow>
      Do env ca req = ((resp, err), cb) \<longrightarrow>
      take 2 (events w (snd (Org_AddUser env o' username role w))) =
        [NewRequest_ev ''POST'' (''/api/orgs/'' @ fmt_d (Org_Id o') @ ''/users'') [] (Some data),
         Do_ev req resp err])"
  by (auto simp: Org_AddUser_def OrgUserRoleAdmin_def OrgUserRoleEditor_def OrgUserRoleViewer_def
        c_newRequest_def c_Do_def ReadAll_def events_def split: prod.splits option.splits)

theorem AddUser_role_witness:
  "''Owner'' \<notin> {''Admin'', ''Editor'', ''Viewer''} \<and>
   Org_AddUser (http_env (answer 200 ''200 OK'' ''{\"message\":\"User added to organization\"}''))
       \<lparr>Org_Id = 3, Name = ''Main Org.''\<rparr> ''bob'' ''Owner'' start =
     (Some (errorString ''invalid role name: Owner''), start) \<and>
   ''Admin'' \<in> {''Admin'', ''Editor'', ''Viewer''} \<and>
   Marshal_map (http_env (answer 200 ''200 OK'' ''{\"message\":\"User added to organization\"}''))
       [(''role'', ''Admin''), (''loginOrEmail'', ''bob'')] =
     (''{\"loginOrEmail\":\"bob\",\"role\":\"Admin\"}'', None) \<and>
   take 2 (events start (snd (Org_AddUser
       (http_env (answer 200 ''200 OK'' ''{\"message\":\"User added to organization\"}''))
       \<lparr>Org_Id = 3, Name = ''Main Org.''\<rparr> ''bob'' ''Admin'' start))) =
     [NewRequest_ev ''POST'' ''/api/orgs/3/users'' [] (Some ''{\"loginOrEmail\":\"bob\",\"role\":\"Admin\"}''),
      Do_ev \<lparr>Method = ''POST'', URL = ''http://localhost:3000/api/orgs/3/users'', Query = [],
             Authorization = ''Bearer secret'',
             Payload = Some ''{\"loginOrEmail\":\"bob\",\"role\":\"Admin\"}''\<rparr>
            \<lparr>StatusCode = 200, Status = ''200 OK'',
             Body = (''{\"message\":\"User added to organization\"}'', None)\<rparr> None]"
  using AddUser_role [where role = "''Owner''" and username = "''bob''" and w = start
      and env = "http_env (answer 200 ''200 OK'' ''{\"message\":\"User added to organization\"}'')"
      and o' = "\<lparr>Org_Id = 3, Name = ''Main Org.''\<rparr>"]
    AddUser_role [where role = "''Admin''" and username = "''bob''" and w = start
      and env = "http_env (answer 200 ''200 OK'' ''{\"message\":\"User added to organization\"}'')"
      and o' = "\<lparr>Org_Id = 3, Name = ''Main Org.''\<rparr>"
      and data = "''{\"loginOrEmail\":\"bob\",\"role\":\"Admin\"}''"
      and req = "\<lparr>Method = ''POST'', URL = ''http://localhost:3000/api/orgs/3/users'', Query = [],
             Authorization = ''Bearer secret'',
             Payload = Some ''{\"loginOrEmail\":\"bob\",\"role\":\"Admin\"}''\<rparr>"
      and ca = grafana and cb = grafana and err = None
      and resp = "\<lparr>StatusCode = 200, Status = ''200 OK'',
             Body = (''{\"message\":\"User added to organization\"}'', None)\<rparr>"]
  by (simp add: http_eval fmt_eval enc_map_def json_object_def json_member_def json_quote_def
        escape_char_def)

subsection \<open>The id of a new annotation\<close>

lemma first_error_None [simp]: "first_error None e = e" "first_error e None = e"
  by (simp_all add: first_error_def split: option.splits)

lemma dec_members_append:
  "dec_members f (xs @ ys) v =
     (case dec_members f xs v of (v1, e1) \<Rightarrow>
      (case dec_members f ys v1 of (v2, e2) \<Rightarrow> (v2, first_error e1 e2)))"
  by (induction xs arbitrary: v) (auto simp: first_error_def split: prod.splits option.splits)

lemma dec_members_other:
  "list_all (\<lambda>(k, j). \<not> fold_eq k name) ms \<Longrightarrow> dec_members (int64_field name) ms v = (v, None)"
  by (induction ms arbitrary: v) (auto simp: int64_field_def)

lemma dec_members_one:
  assumes "fold_eq k name" and "parse_int64 lit = Some n"
      and "list_all (\<lambda>(k, j). \<not> fold_eq k name) (pre @ post)"
  shows "dec_members (int64_field name) (pre @ (k, JNumber lit) # post) v = (n, None)"
  using assms by (simp add: dec_members_append dec_members_other int64_field_def)

lemma NewAnnotation_http:
  "fst (NewAnnotation (http_env (answer 200 status body)) a w) =
     unmarshal (dec_struct (int64_field ''id'')) body 0"
  by (simp add: NewAnnotation_def c_newRequest_def c_Do_def ReadAll_def
        http_env_def Client_newRequest_def Client_Do_def answer_def enc_Annotation_def
      split: prod.splits option.splits)

text \<open>
  A document nested deeper than the limit is refused, whatever follows: an object whose
  member opens 10000 arrays, one inside the other, has 10001 values open.
\<close>

lemma tokens_brackets:
  "tokens LexDefault (replicate n (CHR ''['') @ cs) =
     map_option ((@) (replicate n LBrack)) (tokens LexDefault cs)"
  by (induction n) (simp_all add: is_ws_def word_char_def punct_def option.map_comp comp_def option.map_ident)

lemma prun_brackets:
  "length st \<le> maxNestingDepth \<Longrightarrow> maxNestingDepth < length st + n \<Longrightarrow>
     prun (P_value st) (replicate n LBrack @ ts) = None \<and>
     prun (P_value_or_close st) (replicate n LBrack @ ts) = None"
proof (induction n arbitrary: st)
  case 0
  then show ?case by simp
next
  case (Suc n)
  show ?case
  proof (cases "length st < maxNestingDepth")
    case True
    then have "length (ArrayF [] # st) \<le> maxNestingDepth"
      "maxNestingDepth < length (ArrayF [] # st) + n"
      using Suc.prems by simp_all
    from Suc.IH [OF this] True show ?thesis
      by (cases st) (auto split: frame.splits)
  next
    case False
    then show ?thesis by (cases st) (auto split: frame.splits)
  qed
qed

lemma deep_document_refused:
  "parse_json (''{\"x\":'' @ replicate 10000 (CHR ''['') @ cs) = None"
proof -
  have "prun (P_value [MemberF [] ''x'']) (replicate 10000 LBrack @ ts) = None" for ts
    using prun_brackets [of "[MemberF [] ''x'']" 10000 ts] by (simp add: maxNestingDepth_def)
  then show ?thesis
    by (simp add: parse_json_def tokens_brackets is_ws_def word_char_def punct_def
          maxNestingDepth_def split: option.splits)
qed

text \<open>
  C5. When the answer to \<^verbatim>\<open>NewAnnotation\<close> has status 200 and its body is read without an
  error, \<^verbatim>\<open>NewAnnotation\<close> returns what \<^verbatim>\<open>json.Unmarshal\<close> makes of the body for the field
  tagged \<^verbatim>\<open>id\<close>, starting from 0, and its error. With the decoder above: when the body is
  a JSON object that the decoder accepts (so nested no deeper than \<^verbatim>\<open>maxNestingDepth\<close>) with
  one member named \<^verbatim>\<open>id\<close>, and that member is an integer of 64 bits, the result is that
  integer and the nil error; a server that answers 200 with the body \<^verbatim>\<open>{"id": 42}\<close> makes
  it return 42 and the nil error, for every annotation, client and status text.
\<close>

theorem NewAnnotation_id:
  "(Marshal_Annotation env a = (data, None) \<longrightarrow>
    newRequest env (client w) ''POST'' ''/api/annotations'' [] (Some data) = ((req, None), ca) \<longrightarrow>
    Do env ca req = ((resp, None), cb) \<longrightarrow>
    StatusCode resp = 200 \<longrightarrow>
    Body resp = (body, None) \<longrightarrow>
    fst (NewAnnotation env a w) = Unmarshal_id env body 0) \<and>
   (parse_json doc = Some (JObject (pre @ (k, JNumber lit) # post)) \<longrightarrow>
    fold_eq k ''id'' \<longrightarrow> list_all (\<lambda>(k, j). \<not> fold_eq k ''id'') (pre @ post) \<longrightarrow>
    parse_int64 lit = Some n \<longrightarrow>
    fst (NewAnnotation (http_env (answer 200 status doc)) a' w') = (n, None)) \<and>
   fst (NewAnnotation (http_env (answer 200 status ''{\"id\": 42}'')) a' w') = (42, None)"
proof (intro conjI impI)
  assume "Marshal_Annotation env a = (data, None)"
    "newRequest env (client w) ''POST'' ''/api/annotations'' [] (Some data) = ((req, None), ca)"
    "Do env ca req = ((resp, None), cb)" "StatusCode resp = 200" "Body resp = (body, None)"
  then show "fst (NewAnnotation env a w) = Unmarshal_id env body 0"
    by (simp add: NewAnnotation_def c_newRequest_def c_Do_def ReadAll_def)
next
  assume "parse_json doc = Some (JObject (pre @ (k, JNumber lit) # post))" "fold_eq k ''id''"
    "list_all (\<lambda>(k, j). \<not> fold_eq k ''id'') (pre @ post)" "parse_int64 lit = Some n"
  then show "fst (NewAnnotation (http_env (answer 200 status doc)) a' w') = (n, None)"
    by (simp add: NewAnnotation_http unmarshal_def dec_members_one del: list_all_append)
next
  show "fst (NewAnnotation (http_env (answer 200 status ''{\"id\": 42}'')) a' w') = (42, None)"
    by (simp add: NewAnnotation_http json_eval)
qed

theorem NewAnnotation_id_witness:
  "Marshal_Annotation (http_env (answer 200 ''200 OK'' ''{\"id\": 7, \"message\": \"Annotation added\"}''))
       zero_Annotation = (''{\"dashboardId\":0,\"panelId\":0,\"time\":0,\"text\":\"\"}'', None) \<and>
   fst (NewAnnotation (http_env (answer 200 ''200 OK'' ''{\"id\": 7, \"message\": \"Annotation added\"}''))
       zero_Annotation start) = (7, None)"
  using NewAnnotation_id [where a = zero_Annotation and w = start
      and env = "http_env (answer 200 ''200 OK'' ''{\"id\": 7, \"message\": \"Annotation added\"}'')"
      and data = "''{\"dashboardId\":0,\"panelId\":0,\"time\":0,\"text\":\"\"}''"
      and req = "\<lparr>Method = ''POST'', URL = ''http://localhost:3000/api/annotations'', Query = [],
             Authorization = ''Bearer secret'',
             Payload = Some ''{\"dashboardId\":0,\"panelId\":0,\"time\":0,\"text\":\"\"}''\<rparr>"
      and ca = grafana and cb = grafana
      and resp = "\<lparr>StatusCode = 200, Status = ''200 OK'',
             Body = (''{\"id\": 7, \"message\": \"Annotation added\"}'', None)\<rparr>"
      and body = "''{\"id\": 7, \"message\": \"Annotation added\"}''"]
  by (simp add: http_eval fmt_eval enc_Annotation_def zero_Annotation_def json_object_def
        json_member_def json_quote_def escape_char_def json_eval)

subsection \<open>The operations through the request executor\<close>

lemma exchange_fold:
  "(case c_newRequest env method path params body w of ((req, err), w1) \<Rightarrow>
      (case err of Some e \<Rightarrow> F1 e w1 | None \<Rightarrow>
      (case c_Do env req w1 of ((resp, err), w2) \<Rightarrow>
      (case err of Some e \<Rightarrow> F2 e w2 | None \<Rightarrow>
      if StatusCode resp \<noteq> 200 then G resp w2 else K resp w2)))) =
   (case exchange env method path params body w of
      (RequestFailed e, w') \<Rightarrow> F1 e w'
    | (TransportFailed e, w') \<Rightarrow> F2 e w'
    | (BadStatus resp, w') \<Rightarrow> G resp w'
    | (Answered resp, w') \<Rightarrow> K resp w')"
  by (simp add: exchange_def split: prod.splits option.splits)

lemmas op_defs = Annotations_def NewAnnotation_def NewGraphiteAnnotation_def
  UpdateAnnotation_def PatchAnnotation_def DeleteAnnotation_def DeleteAnnotationByRegionID_def
  Org_AddUser_def Org_Users_def Org_RemoveUser_def Client_Org_def OrgByName_def
  Orgs_def NewOrg_def

lemma DeleteOrg_exchange:
  "DeleteOrg env oid w =
     (case exchange env ''DELETE'' (''/api/orgs/'' @ fmt_d oid) [] None w of
        (RequestFailed e, w') \<Rightarrow> (Some e, w')
      | (TransportFailed e, w') \<Rightarrow> (Some e, w')
      | (BadStatus resp, w') \<Rightarrow> (Some (errorString (Status resp)), w')
      | (Answered resp, w') \<Rightarrow> (None, w'))"
  by (simp add: DeleteOrg_def exchange_def split: prod.splits option.splits)

lemmas ops_exchange = op_defs [unfolded Let_def exchange_fold] DeleteOrg_exchange


lemma exchange_facts:
  assumes "exchange env method path params body w = (x, w')"
  shows "(read_only env \<longrightarrow> client w' = client w) \<and>
    (\<exists>evs. trace w' = trace w @ evs \<and>
      (case x of
         RequestFailed e \<Rightarrow> evs = [NewRequest_ev method path params body]
       | TransportFailed e \<Rightarrow>
           (\<exists>req resp. evs = [NewRequest_ev method path params body, Do_ev req resp (Some e)])
       | BadStatus resp \<Rightarrow> StatusCode resp \<noteq> 200 \<and>
           (\<exists>req. evs = [NewRequest_ev method path params body, Do_ev req resp None])
       | Answered resp \<Rightarrow> StatusCode resp = 200 \<and>
           (\<exists>req. evs = [NewRequest_ev method path params body, Do_ev req resp None])))"
proof -
  obtain req e1 c1 where nr: "newRequest env (client w) method path params body = ((req, e1), c1)"
    by (metis surj_pair)
  obtain resp e2 c2 where d: "Do env c1 req = ((resp, e2), c2)"
    by (metis surj_pair)
  have "read_only env \<Longrightarrow> c1 = client w \<and> c2 = client w"
    using nr d unfolding read_only_def by (metis snd_conv)
  then show ?thesis
    using assms nr d
    by (auto simp: exchange_def c_newRequest_def c_Do_def split: option.splits if_splits)
qed

lemmas run_defs = ops_exchange Annotation_def Org_Dashboards_def returns_def returns_error_def
  ReadAll_def events_def

subsection \<open>Runs against a server\<close>

text \<open>
  Three runs that the theorems below are tried on: an organisation that the server does not
  have, the same organisation found, and an organisation that the server refuses to create.
\<close>

lemma Org_call_404:
  "invoke (http_env (answer 404 ''404 Not Found'' ''{\"message\":\"Organization not found\"}''))
      (Org_call 9) start =
     ((Org_reply zero_Org :: (unit, unit) reply, Some (errorString ''404 Not Found'')),
      \<lparr>client = grafana,
       trace = [NewRequest_ev ''GET'' ''/api/orgs/9'' [] None,
                Do_ev \<lparr>Method = ''GET'', URL = ''http://localhost:3000/api/orgs/9'', Query = [],
                       Authorization = ''Bearer secret'', Payload = None\<rparr>
                      \<lparr>StatusCode = 404, Status = ''404 Not Found'',
                       Body = (''{\"message\":\"Organization not found\"}'', None)\<rparr> None]\<rparr>)"
  by (simp add: Client_Org_def returns_def http_eval fmt_eval)

lemma Org_call_200:
  "invoke (http_env (answer 200 ''200 OK'' ''{\"id\":9,\"name\":\"Main Org.\"}''))
      (Org_call 9) start =
     ((Org_reply \<lparr>Org_Id = 9, Name = ''Main Org.''\<rparr> :: (unit, unit) reply, None),
      \<lparr>client = grafana,
       trace = [NewRequest_ev ''GET'' ''/api/orgs/9'' [] None,
                Do_ev \<lparr>Method = ''GET'', URL = ''http://localhost:3000/api/orgs/9'', Query = [],
                       Authorization = ''Bearer secret'', Payload = None\<rparr>
                      \<lparr>StatusCode = 200, Status = ''200 OK'',
                       Body = (''{\"id\":9,\"name\":\"Main Org.\"}'', None)\<rparr> None,
                ReadAll_ev]\<rparr>)"
  by (simp add: Client_Org_def returns_def http_eval fmt_eval json_eval Org_member_def zero_Org_def)

lemma read_only_http_env: "read_only (http_env server)"
  by (simp add: read_only_def http_env_def Client_newRequest_def Client_Do_def)

lemma NewOrg_call_404:
  "invoke (http_env (answer 404 ''404 Not Found'' ''{\"message\":\"Not found\"}''))
      (NewOrg_call ''acme'') start =
     ((Org_reply \<lparr>Org_Id = 0, Name = ''acme''\<rparr> :: (unit, unit) reply,
       Some (errorString ''404 Not Found'')),
      \<lparr>client = grafana,
       trace = [NewRequest_ev ''POST'' ''/api/orgs'' [] (Some ''{\"id\":0,\"name\":\"acme\"}''),
                Do_ev \<lparr>Method = ''POST'', URL = ''http://localhost:3000/api/orgs'', Query = [],
                       Authorization = ''Bearer secret'',
                       Payload = Some ''{\"id\":0,\"name\":\"acme\"}''\<rparr>
                      \<lparr>StatusCode = 404, Status = ''404 Not Found'',
                       Body = (''{\"message\":\"Not found\"}'', None)\<rparr> None]\<rparr>)"
  by (simp add: NewOrg_def returns_def http_eval fmt_eval enc_Org_def json_object_def
        json_member_def json_quote_def escape_char_def)

subsection \<open>A status other than 200\<close>

text \<open>
  C1, as the code has it. Whenever one of the operations receives a response whose status
  code is not 200 (a 201 and a 204 as much as a 404), it returns the error whose text is
  the status text of the response, and with it the zero or empty value of its result type;
  \<^verbatim>\<open>NewOrg\<close> alone returns the \<^verbatim>\<open>Org\<close> it built from its argument, with the name it was
  given and the Id 0.
\<close>

theorem non200_error:
  assumes "invoke env call w = ((r, err), w')"
      and "Do_ev req resp None \<in> set (events w w')"
      and "StatusCode resp \<noteq> 200"
  shows "err = Some (errorString (Status resp)) \<and>
         r = (case call of NewOrg_call name \<Rightarrow> Org_reply \<lparr>Org_Id = 0, Name = name\<rparr>
              | _ \<Rightarrow> zero_reply call)"
  using assms
  by (cases call)
     (auto simp: run_defs split: prod.splits option.splits outcome.splits if_splits
           dest!: exchange_facts)

theorem non200_error_witness:
  "invoke (http_env (answer 404 ''404 Not Found'' ''{\"message\":\"Organization not found\"}''))
      (Org_call 9) start =
     ((Org_reply zero_Org :: (unit, unit) reply, Some (errorString ''404 Not Found'')),
      \<lparr>client = grafana,
       trace = [NewRequest_ev ''GET'' ''/api/orgs/9'' [] None,
                Do_ev \<lparr>Method = ''GET'', URL = ''http://localhost:3000/api/orgs/9'', Query = [],
                       Authorization = ''Bearer secret'', Payload = None\<rparr>
                      \<lparr>StatusCode = 404, Status = ''404 Not Found'',
                       Body = (''{\"message\":\"Organization not found\"}'', None)\<rparr> None]\<rparr>) \<and>
   Do_ev \<lparr>Method = ''GET'', URL = ''http://localhost:3000/api/orgs/9'', Query = [],
          Authorization = ''Bearer secret'', Payload = None\<rparr>
         \<lparr>StatusCode = 404, Status = ''404 Not Found'',
          Body = (''{\"message\":\"Organization not found\"}'', None)\<rparr> None
     \<in> set (events start
          \<lparr>client = grafana,
           trace = [NewRequest_ev ''GET'' ''/api/orgs/9'' [] None,
                Do_ev \<lparr>Method = ''GET'', URL = ''http://localhost:3000/api/orgs/9'', Query = [],
                       Authorization = ''Bearer secret'', Payload = None\<rparr>
                      \<lparr>StatusCode = 404, Status = ''404 Not Found'',
                       Body = (''{\"message\":\"Organization not found\"}'', None)\<rparr> None]\<rparr>) \<and>
   (404 :: int) \<noteq> 200 \<and>
   Some (errorString ''404 Not Found'') =
     Some (errorString (Status \<lparr>StatusCode = 404, Status = ''404 Not Found'',
          Body = (''{\"message\":\"Organization not found\"}'', None)\<rparr>)) \<and>
   (Org_reply zero_Org :: (unit, unit) reply) = zero_reply (Org_call 9)"
  using non200_error [OF Org_call_404,
      of "\<lparr>Method = ''GET'', URL = ''http://localhost:3000/api/orgs/9'', Query = [],
          Authorization = ''Bearer secret'', Payload = None\<rparr>"
         "\<lparr>StatusCode = 404, Status = ''404 Not Found'',
          Body = (''{\"message\":\"Organization not found\"}'', None)\<rparr>"]
    Org_call_404
  by (simp add: events_def start_def)

text \<open>
  As the claim has it, every operation would return the zero value: \<^verbatim>\<open>NewOrg("acme")\<close>
  against a server that answers 404 returns the organisation named acme.
\<close>

theorem non200_zero_counterexample:
  "invoke (http_env (answer 404 ''404 Not Found'' ''{\"message\":\"Not found\"}''))
      (NewOrg_call ''acme'') start =
     ((Org_reply \<lparr>Org_Id = 0, Name = ''acme''\<rparr> :: (unit, unit) reply,
       Some (errorString ''404 Not Found'')),
      \<lparr>client = grafana,
       trace = [NewRequest_ev ''POST'' ''/api/orgs'' [] (Some ''{\"id\":0,\"name\":\"acme\"}''),
                Do_ev \<lparr>Method = ''POST'', URL = ''http://localhost:3000/api/orgs'', Query = [],
                       Authorization = ''Bearer secret'',
                       Payload = Some ''{\"id\":0,\"name\":\"acme\"}''\<rparr>
                      \<lparr>StatusCode = 404, Status = ''404 Not Found'',
                       Body = (''{\"message\":\"Not found\"}'', None)\<rparr> None]\<rparr>) \<and>
   (Org_reply \<lparr>Org_Id = 0, Name = ''acme''\<rparr> :: (unit, unit) reply) \<noteq> zero_reply (NewOrg_call ''acme'')"
  using NewOrg_call_404 by (simp add: zero_Org_def)

subsection \<open>The body of a refused request\<close>

text \<open>
  C8. When an operation receives a response whose status code is not 200, the response is
  the last thing that happens in the call: the body is not read. A call that reads a body
  has received a response with status code 200.
\<close>

theorem body_unread:
  assumes "invoke env call w = (x, w')"
  shows "(\<forall>req resp. Do_ev req resp None \<in> set (events w w') \<longrightarrow> StatusCode resp \<noteq> 200 \<longrightarrow>
            ReadAll_ev \<notin> set (events w w') \<and> last (events w w') = Do_ev req resp None) \<and>
         (ReadAll_ev \<in> set (events w w') \<longrightarrow>
            (\<exists>req resp. Do_ev req resp None \<in> set (events w w') \<and> StatusCode resp = 200))"
  using assms
  by (cases call)
     (auto simp: run_defs split: prod.splits option.splits outcome.splits if_splits
           dest!: exchange_facts)

theorem body_unread_witness:
  "invoke (http_env (answer 404 ''404 Not Found'' ''{\"message\":\"Organization not found\"}''))
      (Org_call 9) start =
     ((Org_reply zero_Org :: (unit, unit) reply, Some (errorString ''404 Not Found'')),
      \<lparr>client = grafana,
       trace = [NewRequest_ev ''GET'' ''/api/orgs/9'' [] None,
                Do_ev \<lparr>Method = ''GET'', URL = ''http://localhost:3000/api/orgs/9'', Query = [],
                       Authorization = ''Bearer secret'', Payload = None\<rparr>
                      \<lparr>StatusCode = 404, Status = ''404 Not Found'',
                       Body = (''{\"message\":\"Organization not found\"}'', None)\<rparr> None]\<rparr>) \<and>
   events start
      \<lparr>client = grafana,
       trace = [NewRequest_ev ''GET'' ''/api/orgs/9'' [] None,
                Do_ev \<lparr>Method = ''GET'', URL = ''http://localhost:3000/api/orgs/9'', Query = [],
                       Authorization = ''Bearer secret'', Payload = None\<rparr>
                      \<lparr>StatusCode = 404, Status = ''404 Not Found'',
                       Body = (''{\"message\":\"Organization not found\"}'', None)\<rparr> None]\<rparr> =
     [NewRequest_ev ''GET'' ''/api/orgs/9'' [] None,
      Do_ev \<lparr>Method = ''GET'', URL = ''http://localhost:3000/api/orgs/9'', Query = [],
             Authorization = ''Bearer secret'', Payload = None\<rparr>
            \<lparr>StatusCode = 404, Status = ''404 Not Found'',
             Body = (''{\"message\":\"Organization not found\"}'', None)\<rparr> None] \<and>
   (404 :: int) \<noteq> 200 \<and>
   ReadAll_ev \<notin> set (events start
      \<lparr>client = grafana,
       trace = [NewRequest_ev ''GET'' ''/api/orgs/9'' [] None,
                Do_ev \<lparr>Method = ''GET'', URL = ''http://localhost:3000/api/orgs/9'', Query = [],
                       Authorization = ''Bearer secret'', Payload = None\<rparr>
                      \<lparr>StatusCode = 404, Status = ''404 Not Found'',
                       Body = (''{\"message\":\"Organization not found\"}'', None)\<rparr> None]\<rparr>) \<and>
   invoke (http_env (answer 200 ''200 OK'' ''{\"id\":9,\"name\":\"Main Org.\"}''))
      (Org_call 9) start =
     ((Org_reply \<lparr>Org_Id = 9, Name = ''Main Org.''\<rparr> :: (unit, unit) reply, None),
      \<lparr>client = grafana,
       trace = [NewRequest_ev ''GET'' ''/api/orgs/9'' [] None,
                Do_ev \<lparr>Method = ''GET'', URL = ''http://localhost:3000/api/orgs/9'', Query = [],
                       Authorization = ''Bearer secret'', Payload = None\<rparr>
                      \<lparr>StatusCode = 200, Status = ''200 OK'',
                       Body = (''{\"id\":9,\"name\":\"Main Org.\"}'', None)\<rparr> None,
                ReadAll_ev]\<rparr>) \<and>
   ReadAll_ev \<in> set (events start
      \<lparr>client = grafana,
       trace = [NewRequest_ev ''GET'' ''/api/orgs/9'' [] None,
                Do_ev \<lparr>Method = ''GET'', URL = ''http://localhost:3000/api/orgs/9'', Query = [],
                       Authorization = ''Bearer secret'', Payload = None\<rparr>
                      \<lparr>StatusCode = 200, Status = ''200 OK'',
                       Body = (''{\"id\":9,\"name\":\"Main Org.\"}'', None)\<rparr> None,
                ReadAll_ev]\<rparr>)"
  using body_unread [OF Org_call_404] body_unread [OF Org_call_200] Org_call_404 Org_call_200
  by (simp add: events_def start_def)

subsection \<open>The client configuration\<close>

text \<open>
  C7. In a read-only environment, that is when \<^verbatim>\<open>newRequest\<close> and \<^verbatim>\<open>Do\<close> leave the client
  as it was, every operation leaves the client as it was, whatever it returns: the
  operations themselves never write to it.
\<close>

theorem client_unchanged:
  assumes "read_only env" and "invoke env call w = (x, w')"
  shows "client w' = client w"
  using assms
  by (cases call)
     (auto simp: run_defs split: prod.splits option.splits outcome.splits if_splits
           dest!: exchange_facts)

theorem client_unchanged_witness:
  "read_only (http_env (answer 404 ''404 Not Found'' ''{\"message\":\"Not found\"}'')) \<and>
   invoke (http_env (answer 404 ''404 Not Found'' ''{\"message\":\"Not found\"}''))
      (NewOrg_call ''acme'') start =
     ((Org_reply \<lparr>Org_Id = 0, Name = ''acme''\<rparr> :: (unit, unit) reply,
       Some (errorString ''404 Not Found'')),
      \<lparr>client = grafana,
       trace = [NewRequest_ev ''POST'' ''/api/orgs'' [] (Some ''{\"id\":0,\"name\":\"acme\"}''),
                Do_ev \<lparr>Method = ''POST'', URL = ''http://localhost:3000/api/orgs'', Query = [],
                       Authorization = ''Bearer secret'',
                       Payload = Some ''{\"id\":0,\"name\":\"acme\"}''\<rparr>
                      \<lparr>StatusCode = 404, Status = ''404 Not Found'',
                       Body = (''{\"message\":\"Not found\"}'', None)\<rparr> None]\<rparr>) \<and>
   client \<lparr>client = grafana,
       trace = [NewRequest_ev ''POST'' ''/api/orgs'' [] (Some ''{\"id\":0,\"name\":\"acme\"}''),
                Do_ev \<lparr>Method = ''POST'', URL = ''http://localhost:3000/api/orgs'', Query = [],
                       Authorization = ''Bearer secret'',
                       Payload = Some ''{\"id\":0,\"name\":\"acme\"}''\<rparr>
                      \<lparr>StatusCode = 404, Status = ''404 Not Found'',
                       Body = (''{\"message\":\"Not found\"}'', None)\<rparr> None]\<rparr> = client start"
  using client_unchanged [OF read_only_http_env NewOrg_call_404] read_only_http_env NewOrg_call_404
  by simp

subsection \<open>The errors of NewOrg\<close>

text \<open>
  C2. The claim has every operation report the errors of the JSON encoder and decoder, as
  \<^verbatim>\<open>NewAnnotation\<close> and its siblings do. \<^verbatim>\<open>NewOrg\<close> does not: against a server that answers
  200 with a body that is not JSON it returns the nil error, the decoder's error being
  dropped, and an error of the encoder would be dropped in the same way.
\<close>

theorem NewOrg_drops_errors:
  "Unmarshal_orgId (http_env (answer 200 ''200 OK'' ''not json'')) ''not json'' 0 =
     (0, Some syntax_error) \<and>
   fst (NewOrg (http_env (answer 200 ''200 OK'' ''not json'')) ''acme'' start) =
     (\<lparr>Org_Id = 0, Name = ''acme''\<rparr>, None) \<and>
   Marshal_Org ((http_env (answer 200 ''200 OK'' ''{\"orgId\":4,\"message\":\"Organization created\"}''))
          \<lparr>Marshal_Org := \<lambda>org. ([], Some (jsonError ''json: unsupported value''))\<rparr>)
       \<lparr>Org_Id = 0, Name = ''acme''\<rparr> = ([], Some (jsonError ''json: unsupported value'')) \<and>
   fst (NewOrg ((http_env (answer 200 ''200 OK'' ''{\"orgId\":4,\"message\":\"Organization created\"}''))
          \<lparr>Marshal_Org := \<lambda>org. ([], Some (jsonError ''json: unsupported value''))\<rparr>)
        ''acme'' start) = (\<lparr>Org_Id = 4, Name = ''acme''\<rparr>, None)"
  by (simp add: NewOrg_def http_eval fmt_eval json_eval enc_Org_def json_object_def
        json_member_def json_quote_def escape_char_def syntax_error_def)

end
